theory Spec2Isabelle
  imports Main "HOL-Library.Product_Lexorder"
begin

section \<open>The BookingManager contract\<close>

text \<open>
  The contract is embedded with explicit state passing. A \<open>uint256\<close> is a natural number;
  Solidity 0.8 arithmetic is checked, so every addition, multiplication and subtraction of
  the source that can leave the range is a branch that ends in \<open>Panic\<close>. An address is a
  natural number, \<open>address(0)\<close> is \<open>0\<close>. A \<open>require\<close> that fails ends the call with
  \<open>Revert\<close> and its message; a reverted call leaves the state as it was, so a call returns
  either an error or the new state.
\<close>

type_synonym address = nat

definition MAX_UINT256 :: nat where
  "MAX_UINT256 = 2 ^ 256 - 1"

definition ONE_DAY :: nat where
  "ONE_DAY = 86400"

definition CHECK_IN_WINDOW :: nat where
  "CHECK_IN_WINDOW = 86400"

definition DISPUTE_RESOLUTION_WINDOW :: nat where
  "DISPUTE_RESOLUTION_WINDOW = 86400"

datatype BookingStatus =
  Active | CheckInReady | CheckedIn | Completed | Disputed | Cancelled | Refunded
  | EscalatedToAdmin

record Booking =
  bookingId :: nat
  propertyId :: string
  guest :: address
  host :: address
  checkInDate :: nat
  checkOutDate :: nat
  totalAmount :: nat
  platformFee :: nat
  hostAmount :: nat
  status :: BookingStatus
  checkInWindowStart :: nat
  checkInDeadline :: nat
  disputeDeadline :: nat
  isCheckInComplete :: bool
  isResolvedByHost :: bool
  isResolvedByGuest :: bool
  disputeReason :: string
  bookingURI :: string
  paymentReference :: string
  paidOffChain :: bool

text \<open>A slot of the \<open>bookings\<close> mapping that was never written reads as the zero struct.\<close>

definition zeroBooking :: Booking where
  "zeroBooking = \<lparr> bookingId = 0, propertyId = [], guest = 0, host = 0,
     checkInDate = 0, checkOutDate = 0, totalAmount = 0, platformFee = 0, hostAmount = 0,
     status = Active, checkInWindowStart = 0, checkInDeadline = 0, disputeDeadline = 0,
     isCheckInComplete = False, isResolvedByHost = False, isResolvedByGuest = False,
     disputeReason = [], bookingURI = [], paymentReference = [], paidOffChain = False \<rparr>"

datatype error =
  Revert string
  | Panic
  | OwnableUnauthorizedAccount address
  | TokenRevert

text \<open>
  The EURC token is an external contract. The model records every transfer the contract
  asks for, in order, as (from, to, amount); whether the token accepts a transfer is
  decided by the caller's environment (\<open>tokenAccepts\<close>, given the transfers made so far).
  A refused transfer reverts the whole call, as \<open>SafeERC20\<close> does.
\<close>

type_synonym transfer = "address \<times> address \<times> nat"

record contract =
  bookings :: "nat \<Rightarrow> Booking"
  propertyBookings :: "string \<Rightarrow> nat list"
  guestBookings :: "address \<Rightarrow> nat list"
  bookingIdCounter :: nat
  treasury :: address
  ownerAddr :: address
  self :: address
  transfers :: "transfer list"

text \<open>
  What a call sees of the outside: \<open>_msgSender()\<close>, \<open>block.timestamp\<close>, and the two views of
  the PropertyMarketplace contract that the booking functions read, namely the owner and the
  \<open>isActive\<close> flag of a property and \<open>platformFeePercentage()\<close>. The marketplace may
  answer differently from one call to the next. \<open>ownerAddr\<close> is the owner that \<open>onlyOwner\<close>
  compares the caller with; the functions the contract inherits from \<open>Ownable\<close> to hand the
  ownership over are not part of the model.
\<close>

record env =
  sender :: address
  timestamp :: nat
  properties :: "string \<Rightarrow> address \<times> bool"
  platformFeePercentage :: nat
  tokenAccepts :: "transfer list \<Rightarrow> transfer \<Rightarrow> bool"

definition safeTransfer :: "env \<Rightarrow> address \<Rightarrow> nat \<Rightarrow> contract \<Rightarrow> error + contract" where
  "safeTransfer e to amt s =
     (if tokenAccepts e (transfers s) (self s, to, amt)
      then Inr (s\<lparr>transfers := transfers s @ [(self s, to, amt)]\<rparr>)
      else Inl TokenRevert)"

definition safeTransferFrom :: "env \<Rightarrow> address \<Rightarrow> nat \<Rightarrow> contract \<Rightarrow> error + contract" where
  "safeTransferFrom e frm amt s =
     (if tokenAccepts e (transfers s) (frm, self s, amt)
      then Inr (s\<lparr>transfers := transfers s @ [(frm, self s, amt)]\<rparr>)
      else Inl TokenRevert)"

definition setTreasury :: "env \<Rightarrow> address \<Rightarrow> contract \<Rightarrow> error + contract" where
  "setTreasury e t s =
     (if sender e \<noteq> ownerAddr s then Inl (OwnableUnauthorizedAccount (sender e))
      else if t = 0 then Inl (Revert ''Invalid treasury address'')
      else Inr (s\<lparr>treasury := t\<rparr>))"

text \<open>The loop of \<open>hasBookingConflict\<close> over the booking ids of the property.\<close>

fun conflictLoop :: "(nat \<Rightarrow> Booking) \<Rightarrow> nat list \<Rightarrow> nat \<Rightarrow> nat \<Rightarrow> bool" where
  "conflictLoop bs [] ci co = False"
| "conflictLoop bs (i # ids) ci co =
     (if status (bs i) = Cancelled \<or> status (bs i) = Refunded
      then conflictLoop bs ids ci co
      else if ci < checkOutDate (bs i) \<and> co > checkInDate (bs i) then True
      else conflictLoop bs ids ci co)"

definition hasBookingConflict :: "contract \<Rightarrow> string \<Rightarrow> nat \<Rightarrow> nat \<Rightarrow> bool" where
  "hasBookingConflict s pid ci co = conflictLoop (bookings s) (propertyBookings s pid) ci co"

definition newBooking ::
  "nat \<Rightarrow> string \<Rightarrow> address \<Rightarrow> address \<Rightarrow> nat \<Rightarrow> nat \<Rightarrow> nat \<Rightarrow> nat \<Rightarrow> string \<Rightarrow> string
    \<Rightarrow> bool \<Rightarrow> Booking" where
  "newBooking bid pid g h ci co amount fee uri pref offChain =
     \<lparr> bookingId = bid, propertyId = pid, guest = g, host = h,
       checkInDate = ci, checkOutDate = co, totalAmount = amount, platformFee = fee,
       hostAmount = amount - fee,
       status = Active, checkInWindowStart = 0, checkInDeadline = 0, disputeDeadline = 0,
       isCheckInComplete = False, isResolvedByHost = False, isResolvedByGuest = False,
       disputeReason = [], bookingURI = uri, paymentReference = pref,
       paidOffChain = offChain \<rparr>"

text \<open>
  The tail shared by both creation functions: fee split, id allocation, the write of the
  struct and the two pushes. \<open>hostAmount = amount - fee\<close> is a checked subtraction, guarded
  here by the \<open>Panic\<close> branch before \<open>newBooking\<close> is built.
\<close>

definition storeBooking ::
  "env \<Rightarrow> string \<Rightarrow> address \<Rightarrow> address \<Rightarrow> nat \<Rightarrow> nat \<Rightarrow> nat \<Rightarrow> string \<Rightarrow> string \<Rightarrow> bool
    \<Rightarrow> contract \<Rightarrow> error + nat \<times> contract" where
  "storeBooking e pid g h ci co amount uri pref offChain s =
     (if amount * platformFeePercentage e > MAX_UINT256 then Inl Panic
      else let fee = (amount * platformFeePercentage e) div 1000 in
      if fee > amount then Inl Panic
      else if bookingIdCounter s \<ge> MAX_UINT256 then Inl Panic
      else let bid = bookingIdCounter s + 1 in
        Inr (bid, s\<lparr> bookingIdCounter := bid,
                     bookings := (bookings s)
                       (bid := newBooking bid pid g h ci co amount fee uri pref offChain),
                     propertyBookings := (propertyBookings s)
                       (pid := propertyBookings s pid @ [bid]),
                     guestBookings := (guestBookings s)(g := guestBookings s g @ [bid]) \<rparr>))"

definition createBooking ::
  "env \<Rightarrow> string \<Rightarrow> nat \<Rightarrow> nat \<Rightarrow> nat \<Rightarrow> string \<Rightarrow> contract \<Rightarrow> error + nat \<times> contract" where
  "createBooking e pid ci co amount uri s =
     (let h = fst (properties e pid); isActive = snd (properties e pid); g = sender e in
      if \<not> isActive then Inl (Revert ''Property not active'')
      else if h = 0 then Inl (Revert ''Property does not exist'')
      else if h = g then Inl (Revert ''Cannot book own property'')
      else if \<not> ci > timestamp e then Inl (Revert ''Check-in must be in the future'')
      else if \<not> co > ci then Inl (Revert ''Check-out must be after check-in'')
      else if hasBookingConflict s pid ci co
        then Inl (Revert ''Booking dates conflict with existing booking'')
      else if \<not> (co - ci) div ONE_DAY > 0 then Inl (Revert ''Booking must be at least 1 night'')
      else case safeTransferFrom e g amount s of
             Inl err \<Rightarrow> Inl err
           | Inr s1 \<Rightarrow> storeBooking e pid g h ci co amount uri [] False s1)"

definition createBookingPaid ::
  "env \<Rightarrow> string \<Rightarrow> nat \<Rightarrow> nat \<Rightarrow> nat \<Rightarrow> string \<Rightarrow> string \<Rightarrow> contract
    \<Rightarrow> error + nat \<times> contract" where
  "createBookingPaid e pid ci co amount pref uri s =
     (let h = fst (properties e pid); isActive = snd (properties e pid) in
      if \<not> isActive then Inl (Revert ''Property not active'')
      else if h = 0 then Inl (Revert ''Property does not exist'')
      else if \<not> ci > timestamp e then Inl (Revert ''Check-in must be in the future'')
      else if \<not> co > ci then Inl (Revert ''Check-out must be after check-in'')
      else if hasBookingConflict s pid ci co
        then Inl (Revert ''Booking dates conflict with existing booking'')
      else if \<not> (co - ci) div ONE_DAY > 0 then Inl (Revert ''Booking must be at least 1 night'')
      else storeBooking e pid (sender e) h ci co amount uri pref True s)"

definition setBooking :: "nat \<Rightarrow> Booking \<Rightarrow> contract \<Rightarrow> contract" where
  "setBooking bid b s = s\<lparr>bookings := (bookings s)(bid := b)\<rparr>"

definition triggerCheckInWindow :: "env \<Rightarrow> nat \<Rightarrow> contract \<Rightarrow> error + contract" where
  "triggerCheckInWindow e bid s =
     (let b = bookings s bid in
      if bookingId b \<noteq> bid then Inl (Revert ''Booking does not exist'')
      else if status b \<noteq> Active then Inl (Revert ''Booking not active'')
      else if \<not> timestamp e \<ge> checkInDate b then Inl (Revert ''Check-in date not reached'')
      else if checkInWindowStart b \<noteq> 0 then Inl (Revert ''Check-in window already triggered'')
      else if timestamp e + CHECK_IN_WINDOW > MAX_UINT256 then Inl Panic
      else Inr (setBooking bid (b\<lparr> checkInWindowStart := timestamp e,
                                    checkInDeadline := timestamp e + CHECK_IN_WINDOW,
                                    status := CheckInReady \<rparr>) s))"

definition checkIn :: "env \<Rightarrow> nat \<Rightarrow> contract \<Rightarrow> error + contract" where
  "checkIn e bid s =
     (let b = bookings s bid in
      if guest b \<noteq> sender e then Inl (Revert ''Not the guest'')
      else if status b \<noteq> CheckInReady then Inl (Revert ''Not ready for check-in'')
      else if \<not> timestamp e \<le> checkInDeadline b then Inl (Revert ''Check-in window expired'')
      else Inr (setBooking bid (b\<lparr> status := CheckedIn, isCheckInComplete := True \<rparr>) s))"

definition processMissedCheckIn :: "env \<Rightarrow> nat \<Rightarrow> contract \<Rightarrow> error + contract" where
  "processMissedCheckIn e bid s =
     (let b = bookings s bid in
      if status b \<noteq> CheckInReady then Inl (Revert ''Not in check-in window'')
      else if \<not> timestamp e > checkInDeadline b then Inl (Revert ''Check-in window not expired'')
      else if timestamp e + DISPUTE_RESOLUTION_WINDOW > MAX_UINT256 then Inl Panic
      else Inr (setBooking bid (b\<lparr> status := Disputed,
                                    disputeDeadline := timestamp e + DISPUTE_RESOLUTION_WINDOW,
                                    disputeReason := ''Missed check-in'' \<rparr>) s))"

definition completeBooking :: "env \<Rightarrow> nat \<Rightarrow> contract \<Rightarrow> error + contract" where
  "completeBooking e bid s =
     (let b = (bookings s bid)\<lparr>status := Completed\<rparr>; s1 = setBooking bid b s in
      if paidOffChain b then Inr s1
      else case safeTransfer e (treasury s1) (platformFee b) s1 of
             Inl err \<Rightarrow> Inl err
           | Inr s2 \<Rightarrow> safeTransfer e (host b) (hostAmount b) s2)"

definition hostResolveDispute :: "env \<Rightarrow> nat \<Rightarrow> contract \<Rightarrow> error + contract" where
  "hostResolveDispute e bid s =
     (let b = bookings s bid in
      if host b \<noteq> sender e then Inl (Revert ''Not the property owner'')
      else if status b \<noteq> Disputed then Inl (Revert ''Not in dispute'')
      else if \<not> timestamp e \<le> disputeDeadline b then Inl (Revert ''Dispute window expired'')
      else let s1 = setBooking bid (b\<lparr>isResolvedByHost := True\<rparr>) s in
        if isResolvedByGuest (bookings s1 bid) then completeBooking e bid s1 else Inr s1)"

definition guestResolveDispute :: "env \<Rightarrow> nat \<Rightarrow> contract \<Rightarrow> error + contract" where
  "guestResolveDispute e bid s =
     (let b = bookings s bid in
      if guest b \<noteq> sender e then Inl (Revert ''Not the guest'')
      else if status b \<noteq> Disputed then Inl (Revert ''Not in dispute'')
      else if \<not> timestamp e \<le> disputeDeadline b then Inl (Revert ''Dispute window expired'')
      else let s1 = setBooking bid (b\<lparr>isResolvedByGuest := True\<rparr>) s in
        if isResolvedByHost (bookings s1 bid) then completeBooking e bid s1 else Inr s1)"

definition escalateDispute :: "env \<Rightarrow> nat \<Rightarrow> contract \<Rightarrow> error + contract" where
  "escalateDispute e bid s =
     (let b = bookings s bid in
      if status b \<noteq> Disputed then Inl (Revert ''Not in dispute'')
      else if \<not> timestamp e > disputeDeadline b
        then Inl (Revert ''Dispute resolution window not expired'')
      else if isResolvedByHost b \<and> isResolvedByGuest b
        then Inl (Revert ''Dispute already resolved'')
      else Inr (setBooking bid (b\<lparr>status := EscalatedToAdmin\<rparr>) s))"

definition resolvedStatus :: "nat \<Rightarrow> BookingStatus" where
  "resolvedStatus pct = (if pct = 100 then Refunded else Completed)"

definition payIfPositive :: "env \<Rightarrow> address \<Rightarrow> nat \<Rightarrow> contract \<Rightarrow> error + contract" where
  "payIfPositive e to amt s = (if amt > 0 then safeTransfer e to amt s else Inr s)"

definition adminResolveDispute :: "env \<Rightarrow> nat \<Rightarrow> nat \<Rightarrow> contract \<Rightarrow> error + contract" where
  "adminResolveDispute e bid pct s =
     (let b = bookings s bid in
      if sender e \<noteq> ownerAddr s then Inl (OwnableUnauthorizedAccount (sender e))
      else if status b \<noteq> EscalatedToAdmin then Inl (Revert ''Not escalated to admin'')
      else if \<not> pct \<le> 100 then Inl (Revert ''Invalid percentage'')
      else if paidOffChain b then Inr (setBooking bid (b\<lparr>status := resolvedStatus pct\<rparr>) s)
      else if hostAmount b * pct > MAX_UINT256 then Inl Panic
      else let guestRefund = (hostAmount b * pct) div 100;
               hostPayout = hostAmount b - guestRefund in
        case payIfPositive e (guest b) guestRefund s of
          Inl err \<Rightarrow> Inl err
        | Inr s1 \<Rightarrow>
           (case payIfPositive e (host b) hostPayout s1 of
              Inl err \<Rightarrow> Inl err
            | Inr s2 \<Rightarrow>
               (case safeTransfer e (treasury s2) (platformFee b) s2 of
                  Inl err \<Rightarrow> Inl err
                | Inr s3 \<Rightarrow> Inr (setBooking bid (b\<lparr>status := resolvedStatus pct\<rparr>) s3))))"

definition cancelBooking :: "env \<Rightarrow> nat \<Rightarrow> contract \<Rightarrow> error + contract" where
  "cancelBooking e bid s =
     (let b = bookings s bid in
      if guest b \<noteq> sender e then Inl (Revert ''Not the guest'')
      else if status b \<noteq> Active then Inl (Revert ''Cannot cancel booking'')
      else if \<not> timestamp e < checkInDate b then Inl (Revert ''Past check-in date'')
      else let s1 = setBooking bid (b\<lparr>status := Cancelled\<rparr>) s in
        if paidOffChain b then Inr s1
        else case safeTransfer e (guest b) (hostAmount b) s1 of
               Inl err \<Rightarrow> Inl err
             | Inr s2 \<Rightarrow> safeTransfer e (treasury s2) (platformFee b) s2)"

subsection \<open>Transactions and reachable states\<close>

datatype call =
  CreateBooking string nat nat nat string
  | CreateBookingPaid string nat nat nat string string
  | TriggerCheckInWindow nat
  | CheckIn nat
  | ProcessMissedCheckIn nat
  | HostResolveDispute nat
  | GuestResolveDispute nat
  | EscalateDispute nat
  | AdminResolveDispute nat nat
  | CancelBooking nat
  | SetTreasury address

fun exec :: "env \<Rightarrow> call \<Rightarrow> contract \<Rightarrow> error + contract" where
  "exec e (CreateBooking pid ci co amount uri) s = map_sum id snd (createBooking e pid ci co amount uri s)"
| "exec e (CreateBookingPaid pid ci co amount pref uri) s =
     map_sum id snd (createBookingPaid e pid ci co amount pref uri s)"
| "exec e (TriggerCheckInWindow bid) s = triggerCheckInWindow e bid s"
| "exec e (CheckIn bid) s = checkIn e bid s"
| "exec e (ProcessMissedCheckIn bid) s = processMissedCheckIn e bid s"
| "exec e (HostResolveDispute bid) s = hostResolveDispute e bid s"
| "exec e (GuestResolveDispute bid) s = guestResolveDispute e bid s"
| "exec e (EscalateDispute bid) s = escalateDispute e bid s"
| "exec e (AdminResolveDispute bid pct) s = adminResolveDispute e bid pct s"
| "exec e (CancelBooking bid) s = cancelBooking e bid s"
| "exec e (SetTreasury t) s = setTreasury e t s"

text \<open>The state the constructor leaves: no booking, counter 0, the deployer as owner.\<close>

definition deployed :: "address \<Rightarrow> address \<Rightarrow> address \<Rightarrow> contract" where
  "deployed deployer tr this =
     \<lparr> bookings = (\<lambda>_. zeroBooking), propertyBookings = (\<lambda>_. []), guestBookings = (\<lambda>_. []),
       bookingIdCounter = 0, treasury = tr, ownerAddr = deployer, self = this,
       transfers = [] \<rparr>"

text \<open>
  \<open>evolves s s'\<close>: \<open>s'\<close> is \<open>s\<close> after any number of successful calls, each with its own
  environment. A reverted call changes nothing and so adds no state.
\<close>

inductive evolves :: "contract \<Rightarrow> contract \<Rightarrow> bool" where
  evolves_refl: "evolves s s"
| evolves_call: "evolves s s1 \<Longrightarrow> exec e c s1 = Inr s2 \<Longrightarrow> evolves s s2"

definition reachable :: "contract \<Rightarrow> bool" where
  "reachable s = (\<exists>deployer tr this. evolves (deployed deployer tr this) s)"

section \<open>The event listener (backend/src/services/event-listener.js)\<close>

text \<open>
  The listener polls the chain for event logs and mirrors them into the Strapi CMS. Its own
  state is the cursor \<open>lastProcessedBlock\<close> and two JavaScript \<open>Set\<close>s of event identifiers,
  \<open>processedEvents\<close> and \<open>processingEvents\<close>; a \<open>Set\<close> keeps insertion order and holds no
  duplicates, so each is a list that \<open>setAdd\<close> extends only with a new element. Everything
  the handlers act on (the CMS and the listener's other fields) is the component
  \<open>projection\<close>, of a type the engine does not look into.
\<close>

datatype jsval = JBigInt int | JNum int | JStr string | JBool bool

record event =
  evName :: string
  evEventName :: string
  evArgs :: "jsval list"
  evTimestamp :: nat
  evTransactionHash :: string
  evBlockNumber :: nat
  evTransactionIndex :: nat

text \<open>
  \<open>evName\<close> is the field \<open>name\<close> of a custom event object and \<open>evEventName\<close> the field
  \<open>eventName\<close> of an ethers log; an absent or empty field, which JavaScript treats as false,
  is the empty string.
\<close>

record payload =
  plName :: string
  plArgs :: "jsval list"
  plTimestamp :: nat
  plTransactionHash :: string

text \<open>
  A handler is an async function of the payload. It either returns (\<open>True\<close>) or throws
  (\<open>False\<close>), and in both cases leaves some projection behind.
\<close>

type_synonym 'p handler = "payload \<Rightarrow> 'p \<Rightarrow> bool \<times> 'p"

record 'p config =
  handlePropertyListed :: "'p handler"
  handlePropertyUpdated :: "'p handler"
  handlePropertyRemoved :: "'p handler"
  handlePropertyMetadataUpdated :: "'p handler"
  handleBookingCreated :: "'p handler"
  handleBookingCreatedPaid :: "'p handler"
  handleCheckedIn :: "'p handler"
  handleBookingCompleted :: "'p handler"
  handleBookingCancelled :: "'p handler"
  stringify :: "jsval list \<Rightarrow> string"
  dateNow :: nat

text \<open>
  \<open>stringify\<close> stands for the built-in \<open>JSON.stringify\<close> on an argument array and \<open>dateNow\<close>
  for \<open>Date.now()\<close>.
\<close>

record 'p listener =
  lastProcessedBlock :: nat
  processedEvents :: "string list"
  processingEvents :: "string list"
  projection :: 'p

definition setAdd :: "'a \<Rightarrow> 'a list \<Rightarrow> 'a list" where
  "setAdd x xs = (if x \<in> set xs then xs else xs @ [x])"

definition setDelete :: "'a \<Rightarrow> 'a list \<Rightarrow> 'a list" where
  "setDelete x xs = removeAll x xs"

definition digitChar :: "nat \<Rightarrow> char" where
  "digitChar d = ''0123456789'' ! d"

fun showNat :: "nat \<Rightarrow> string" where
  "showNat n = (if n < 10 then [digitChar n] else showNat (n div 10) @ [digitChar (n mod 10)])"

definition showInt :: "int \<Rightarrow> string" where
  "showInt i = (if i < 0 then CHR ''-'' # showNat (nat (- i)) else showNat (nat i))"

text \<open>The replacer of \<open>processEvent\<close>: a \<open>bigint\<close> becomes its decimal string.\<close>

fun toSafe :: "jsval \<Rightarrow> jsval" where
  "toSafe (JBigInt i) = JStr (showInt i)"
| "toSafe v = v"

definition orUnknown :: "string \<Rightarrow> string" where
  "orUnknown h = (if h = [] then ''unknown'' else h)"

definition makeEventId :: "'p config \<Rightarrow> string \<Rightarrow> string \<Rightarrow> jsval list \<Rightarrow> string" where
  "makeEventId cfg transactionHash eventName eventArgs =
     transactionHash @ ''-'' @ eventName @ ''-'' @ stringify cfg (map toSafe eventArgs)"

definition noop :: "'p handler" where
  "noop pl p = (True, p)"

text \<open>
  \<open>getEventHandler\<close> reads \<open>handlers[eventName]\<close> on an object literal, so besides the twelve
  keys of the literal a name of \<open>Object.prototype\<close> finds a value too, and \<open>processEvent\<close>
  calls whatever it finds. Called as a plain function on the payload, \<open>constructor\<close> (that
  is \<open>Object\<close>) and \<open>toString\<close> return; the other members need an object as \<open>this\<close> and
  throw a \<open>TypeError\<close>, and \<open>__proto__\<close> yields \<open>Object.prototype\<close> itself, which is not
  callable, so the call throws as well. None of them touches the projection.
\<close>

definition thrower :: "'p handler" where
  "thrower pl p = (False, p)"

definition prototypeReturning :: "string list" where
  "prototypeReturning = [''constructor'', ''toString'']"

definition prototypeThrowing :: "string list" where
  "prototypeThrowing =
     [''hasOwnProperty'', ''isPrototypeOf'', ''propertyIsEnumerable'', ''toLocaleString'',
      ''valueOf'', ''__defineGetter__'', ''__defineSetter__'', ''__lookupGetter__'',
      ''__lookupSetter__'', ''__proto__'']"

definition getEventHandler :: "'p config \<Rightarrow> string \<Rightarrow> 'p handler option" where
  "getEventHandler cfg eventName =
     (if eventName = ''PropertyListed'' then Some (handlePropertyListed cfg)
      else if eventName = ''PropertyUpdated'' then Some (handlePropertyUpdated cfg)
      else if eventName = ''PropertyRemoved'' then Some (handlePropertyRemoved cfg)
      else if eventName = ''PropertyMetadataUpdated'' then Some (handlePropertyMetadataUpdated cfg)
      else if eventName = ''BookingCreated'' then Some (handleBookingCreated cfg)
      else if eventName = ''BookingCreatedPaid'' then Some (handleBookingCreatedPaid cfg)
      else if eventName = ''CheckedIn'' then Some (handleCheckedIn cfg)
      else if eventName = ''BookingCompleted'' then Some (handleBookingCompleted cfg)
      else if eventName = ''BookingCancelled'' then Some (handleBookingCancelled cfg)
      else if eventName = ''OwnershipTransferred'' then Some noop
      else if eventName = ''Approval'' then Some noop
      else if eventName = ''Transfer'' then Some noop
      else if eventName \<in> set prototypeReturning then Some noop
      else if eventName \<in> set prototypeThrowing then Some thrower
      else None)"

text \<open>
  The part of \<open>processEvent\<close> after the event's format is known: the two membership tests,
  the in-flight mark, the handler inside \<open>try\<close>, the commit after a normal return, and the
  \<open>finally\<close> that removes the in-flight mark.
\<close>

definition processNamed ::
  "'p config \<Rightarrow> string \<Rightarrow> jsval list \<Rightarrow> nat \<Rightarrow> string \<Rightarrow> 'p listener \<Rightarrow> 'p listener" where
  "processNamed cfg eventName eventArgs eventTimestamp transactionHash s =
     (let eventId = makeEventId cfg transactionHash eventName eventArgs in
      if eventId \<in> set (processingEvents s) then s
      else if eventId \<in> set (processedEvents s) then s
      else let s1 = s\<lparr>processingEvents := setAdd eventId (processingEvents s)\<rparr>;
               s2 = (case getEventHandler cfg eventName of
                       None \<Rightarrow> s1
                     | Some handler \<Rightarrow>
                         (case handler \<lparr> plName = eventName, plArgs = eventArgs,
                                         plTimestamp = eventTimestamp,
                                         plTransactionHash = transactionHash \<rparr> (projection s1) of
                            (True, p') \<Rightarrow>
                              s1\<lparr>projection := p',
                                 processedEvents := setAdd eventId (processedEvents s1)\<rparr>
                          | (False, p') \<Rightarrow> s1\<lparr>projection := p'\<rparr>))
           in s2\<lparr>processingEvents := setDelete eventId (processingEvents s2)\<rparr>)"

definition processEvent :: "'p config \<Rightarrow> event \<Rightarrow> 'p listener \<Rightarrow> 'p listener" where
  "processEvent cfg ev s =
     (if evName ev \<noteq> []
      then processNamed cfg (evName ev) (evArgs ev) (evTimestamp ev)
             (orUnknown (evTransactionHash ev)) s
      else if evEventName ev \<noteq> []
      then processNamed cfg (evEventName ev) (evArgs ev) (dateNow cfg)
             (orUnknown (evTransactionHash ev)) s
      else s)"

text \<open>The identifier \<open>processEvent\<close> computes for an event whose format it knows.\<close>

definition eventIdOf :: "'p config \<Rightarrow> event \<Rightarrow> string" where
  "eventIdOf cfg ev =
     makeEventId cfg (orUnknown (evTransactionHash ev))
       (if evName ev \<noteq> [] then evName ev else evEventName ev) (evArgs ev)"

text \<open>
  What one poll sees of the chain: \<open>getBlockNumber\<close> and the two \<open>queryFilter\<close> calls, each
  of which may fail (\<open>None\<close>).
\<close>

record rpc =
  getBlockNumber :: "nat option"
  propertyQuery :: "nat \<Rightarrow> nat \<Rightarrow> event list option"
  bookingQuery :: "nat \<Rightarrow> nat \<Rightarrow> event list option"

text \<open>
  \<open>getAllEvents\<close> catches a failing query and returns what it has collected so far; the sort
  is reached only when both queries succeed. \<open>Array.prototype.sort\<close> is stable, as
  \<open>sort_key\<close> is.
\<close>

definition getAllEvents :: "rpc \<Rightarrow> nat \<Rightarrow> nat \<Rightarrow> event list" where
  "getAllEvents r fromBlock toBlock =
     (case propertyQuery r fromBlock toBlock of
        None \<Rightarrow> []
      | Some propertyEvents \<Rightarrow>
         (case bookingQuery r fromBlock toBlock of
            None \<Rightarrow> propertyEvents
          | Some bookingEvents \<Rightarrow>
              sort_key (\<lambda>ev. (evBlockNumber ev, evTransactionIndex ev))
                (propertyEvents @ bookingEvents)))"

fun processAll :: "'p config \<Rightarrow> event list \<Rightarrow> 'p listener \<Rightarrow> 'p listener" where
  "processAll cfg [] s = s"
| "processAll cfg (ev # evs) s = processAll cfg evs (processEvent cfg ev s)"

text \<open>
  \<open>processNewBlocks\<close>: a failing \<open>getBlockNumber\<close> lands in the outer \<open>catch\<close>, which only logs.
  \<open>processEvent\<close> catches whatever its handler throws, so the loop always runs to its end
  and the assignment to \<open>lastProcessedBlock\<close> is always reached. \<open>saveState\<close>, which writes the
  cursor to disk, is left out.
\<close>

definition processNewBlocks :: "'p config \<Rightarrow> rpc \<Rightarrow> 'p listener \<Rightarrow> 'p listener" where
  "processNewBlocks cfg r s =
     (case getBlockNumber r of
        None \<Rightarrow> s
      | Some currentBlock \<Rightarrow>
          if currentBlock > lastProcessedBlock s
          then (processAll cfg (getAllEvents r (lastProcessedBlock s + 1) currentBlock) s)
                 \<lparr>lastProcessedBlock := currentBlock\<rparr>
          else s)"

definition cleanupProcessedEvents :: "'p listener \<Rightarrow> 'p listener" where
  "cleanupProcessedEvents s =
     (if length (processedEvents s) > 10000
      then s\<lparr>processedEvents := drop (length (processedEvents s) - 10000) (processedEvents s)\<rparr>
      else s)"

definition resetIdempotencyTracking :: "'p listener \<Rightarrow> 'p listener" where
  "resetIdempotencyTracking s = s\<lparr>processedEvents := [], processingEvents := []\<rparr>"

subsection \<open>The Strapi side of the booking handlers\<close>

text \<open>
  The CMS is a store of property and booking entries. Of a booking entry the model keeps
  the relation to its property, the ledger id, the status string and the dates (as the
  seconds the handler received, where the source formats a calendar date); the amounts,
  which the source computes in floating point, and the user relation are left out.
\<close>

record strapiProperty =
  spId :: nat
  spBlockchainPropertyId :: string

record strapiBooking =
  sbId :: nat
  sbProperty :: nat
  sbBlockchainBookingId :: string
  sbBookingStatus :: string
  sbStartDate :: nat
  sbEndDate :: nat
  sbNumberOfNights :: nat
  sbPaymentReference :: string

record strapi =
  sProperties :: "strapiProperty list"
  sBookings :: "strapiBooking list"
  sNextId :: nat

record bookingData =
  bdBookingId :: string
  bdPropertyId :: string
  bdGuest :: string
  bdCheckInDate :: nat
  bdCheckOutDate :: nat
  bdStatus :: string
  bdNumberOfNights :: nat
  bdPaymentReference :: string

text \<open>
  The environment of one handler run: the \<open>autoSync\<close> switch, whether each kind of HTTP
  request goes through (a failed GET is caught by the finder, which then returns the empty
  array; a failed POST or PUT is rethrown), and \<open>recoverProperty\<close>, the net effect of the block that
  creates a missing property from chain state: the store it leaves and whether it got as far
  as the second property lookup.
\<close>

record strapiEnv =
  autoSync :: bool
  bookingsGetOk :: bool
  propertiesGetOk :: bool
  propertyBookingsGetOk :: bool
  postOk :: bool
  putOk :: bool
  recoverProperty :: "string \<Rightarrow> strapi \<Rightarrow> bool \<times> strapi"

text \<open>
  \<open>findBookingByBlockchainId\<close> fetches all bookings and filters them with a callback that
  returns \<open>false\<close> for every entry.
\<close>

definition findBookingByBlockchainId :: "strapiEnv \<Rightarrow> strapi \<Rightarrow> string \<Rightarrow> strapiBooking list" where
  "findBookingByBlockchainId env st blockchainBookingId =
     (if bookingsGetOk env then filter (\<lambda>booking. False) (sBookings st) else [])"

definition findPropertyByBlockchainId ::
  "strapiEnv \<Rightarrow> strapi \<Rightarrow> string \<Rightarrow> strapiProperty list" where
  "findPropertyByBlockchainId env st blockchainPropertyId =
     (if propertiesGetOk env
      then filter (\<lambda>p. spBlockchainPropertyId p = blockchainPropertyId) (sProperties st)
      else [])"

definition findBookingsByPropertyId :: "strapiEnv \<Rightarrow> strapi \<Rightarrow> nat \<Rightarrow> strapiBooking list" where
  "findBookingsByPropertyId env st strapiPropertyId =
     (if propertyBookingsGetOk env
      then filter (\<lambda>b. sbProperty b = strapiPropertyId) (sBookings st)
      else [])"

definition postBooking :: "nat \<Rightarrow> bookingData \<Rightarrow> strapi \<Rightarrow> strapiBooking" where
  "postBooking strapiPropertyId bd st =
     \<lparr> sbId = sNextId st, sbProperty = strapiPropertyId,
       sbBlockchainBookingId = bdBookingId bd, sbBookingStatus = bdStatus bd,
       sbStartDate = bdCheckInDate bd, sbEndDate = bdCheckOutDate bd,
       sbNumberOfNights = bdNumberOfNights bd, sbPaymentReference = bdPaymentReference bd \<rparr>"

text \<open>
  \<open>createBookingInStrapi\<close> returns an entry, or \<open>null\<close>/\<open>undefined\<close> (\<open>None\<close>), or throws
  (\<open>Inl ()\<close>); the second component is the store it leaves.
\<close>

definition createBookingInStrapi ::
  "strapiEnv \<Rightarrow> bookingData \<Rightarrow> strapi \<Rightarrow> (unit + strapiBooking option) \<times> strapi" where
  "createBookingInStrapi env bd st =
     (if \<not> autoSync env then (Inr None, st)
      else case findBookingByBlockchainId env st (bdBookingId bd) of
        existing # _ \<Rightarrow> (Inr (Some existing), st)
      | [] \<Rightarrow>
         (let found = findPropertyByBlockchainId env st (bdPropertyId bd);
              (props, st1) =
                (if found = []
                 then (case recoverProperty env (bdPropertyId bd) st of
                         (True, st') \<Rightarrow> (findPropertyByBlockchainId env st' (bdPropertyId bd), st')
                       | (False, st') \<Rightarrow> ([], st'))
                 else (found, st))
          in case props of
               [] \<Rightarrow> (Inr None, st1)
             | p # _ \<Rightarrow>
                (case findBookingsByPropertyId env st1 (spId p) of
                   b # _ \<Rightarrow> (Inr (Some b), st1)
                 | [] \<Rightarrow>
                    if postOk env
                    then (Inr (Some (postBooking (spId p) bd st1)),
                          st1\<lparr> sBookings := sBookings st1 @ [postBooking (spId p) bd st1],
                               sNextId := sNextId st1 + 1 \<rparr>)
                    else (Inl (), st1))))"

definition getBookingStatusString :: "BookingStatus \<Rightarrow> string" where
  "getBookingStatusString st =
     (case st of
        Active \<Rightarrow> ''Upcoming'' | CheckInReady \<Rightarrow> ''Upcoming'' | CheckedIn \<Rightarrow> ''Active''
      | Completed \<Rightarrow> ''Complete'' | Disputed \<Rightarrow> ''Upcoming'' | Cancelled \<Rightarrow> ''Cancelled''
      | Refunded \<Rightarrow> ''Cancelled'' | EscalatedToAdmin \<Rightarrow> ''Upcoming'')"

definition ceilDays :: "nat \<Rightarrow> nat \<Rightarrow> nat" where
  "ceilDays outDate inDate = (outDate - inDate + 86399) div 86400"

text \<open>
  \<open>handleBookingCreated\<close> on the arguments the ABI decodes (booking id, property id, guest,
  check-in date, amount): it reads the booking back from the contract (\<open>None\<close> when the call
  fails) and hands it to \<open>createBookingInStrapi\<close>. Its whole body sits in a \<open>try\<close> whose
  \<open>catch\<close> only logs, so it always returns. \<open>ceilDays\<close> is \<open>Math.ceil\<close> of the quotient for
  a check-out that is not before the check-in, as the contract guarantees.
\<close>

definition handleBookingCreatedImpl ::
  "strapiEnv \<Rightarrow> (nat \<Rightarrow> Booking option) \<Rightarrow> strapi handler" where
  "handleBookingCreatedImpl env chainBookings pl st =
     (case plArgs pl of
        JBigInt bid # JStr pid # JStr g # JBigInt ci # _ \<Rightarrow>
          (case chainBookings (nat bid) of
             None \<Rightarrow> (True, st)
           | Some bookingData \<Rightarrow>
               (True, snd (createBookingInStrapi env
                  \<lparr> bdBookingId = showInt bid, bdPropertyId = pid, bdGuest = g,
                    bdCheckInDate = nat ci, bdCheckOutDate = checkOutDate bookingData,
                    bdStatus = getBookingStatusString (status bookingData),
                    bdNumberOfNights = ceilDays (checkOutDate bookingData) (nat ci),
                    bdPaymentReference = [] \<rparr> st)))
      | _ \<Rightarrow> (True, st))"

definition handleBookingCreatedPaidImpl ::
  "strapiEnv \<Rightarrow> (nat \<Rightarrow> Booking option) \<Rightarrow> strapi handler" where
  "handleBookingCreatedPaidImpl env chainBookings pl st =
     (case plArgs pl of
        JBigInt bid # JStr pid # JStr g # JBigInt ci # JBigInt co # JBigInt amt # JStr pref # _ \<Rightarrow>
          (case chainBookings (nat bid) of
             None \<Rightarrow> (True, st)
           | Some bookingData \<Rightarrow>
               (True, snd (createBookingInStrapi env
                  \<lparr> bdBookingId = showInt bid, bdPropertyId = pid, bdGuest = g,
                    bdCheckInDate = nat ci, bdCheckOutDate = nat co,
                    bdStatus = getBookingStatusString (status bookingData),
                    bdNumberOfNights = ceilDays (nat co) (nat ci),
                    bdPaymentReference = pref \<rparr> st)))
      | _ \<Rightarrow> (True, st))"

text \<open>
  \<open>updateBookingInStrapi\<close> looks the entry up with \<open>findBookingByBlockchainId\<close>, returns
  without a request when nothing is found, and otherwise PUTs the new status on the first
  entry found; a failed PUT is rethrown.
\<close>

definition updateBookingInStrapi ::
  "strapiEnv \<Rightarrow> string \<Rightarrow> string \<Rightarrow> strapi \<Rightarrow> (unit + strapiBooking option) \<times> strapi" where
  "updateBookingInStrapi env ledgerId newStatus st =
     (case findBookingByBlockchainId env st ledgerId of
        [] \<Rightarrow> (Inr None, st)
      | b # _ \<Rightarrow>
          if putOk env
          then (Inr (Some (b\<lparr>sbBookingStatus := newStatus\<rparr>)),
                st\<lparr> sBookings :=
                     map (\<lambda>x. if sbId x = sbId b then x\<lparr>sbBookingStatus := newStatus\<rparr> else x)
                       (sBookings st) \<rparr>)
          else (Inl (), st))"

subsection \<open>The registered handlers\<close>

text \<open>
  What the handlers act on: the CMS and the listener's \<open>originalOwners\<close> map. A handler
  destructures the argument array, so an argument that is missing reads as \<open>undefined\<close>
  (\<open>None\<close>).
\<close>

record world =
  cms :: strapi
  originalOwners :: "jsval option \<Rightarrow> jsval option option"

definition argAt :: "jsval list \<Rightarrow> nat \<Rightarrow> jsval option" where
  "argAt xs i = (if i < length xs then Some (xs ! i) else None)"

text \<open>
  What the handlers read from outside the CMS: the contract's \<open>bookings\<close> getter; for a
  transaction hash, the \<open>from\<close> of the first \<open>MetaTransactionExecuted\<close> log of its receipt
  (\<open>None\<close> when there is none or the receipt cannot be read); whether \<open>ethers.formatEther\<close>
  accepts a value or throws on it; and the optional payout callback \<open>onBookingCompleted\<close>.
\<close>

record handlerEnv =
  heStrapi :: strapiEnv
  heChainBookings :: "nat \<Rightarrow> Booking option"
  heMetaTxSender :: "string \<Rightarrow> string option"
  heFormatEtherAccepts :: "jsval option \<Rightarrow> bool"
  heOnBookingCompleted :: "(jsval option \<Rightarrow> world \<Rightarrow> bool \<times> world) option"
  heStringify :: "jsval list \<Rightarrow> string"
  heDateNow :: nat

text \<open>
  \<open>handlePropertyListed\<close> records the original sender of the listing; the receipt lookup
  sits in a \<open>try\<close> whose \<open>catch\<close> is empty.
\<close>

definition handlePropertyListedImpl :: "handlerEnv \<Rightarrow> world handler" where
  "handlePropertyListedImpl env pl w =
     (let propertyId = argAt (plArgs pl) 0;
          owner = argAt (plArgs pl) 2;
          originalFrom =
            (if plTransactionHash pl \<noteq> []
             then (case heMetaTxSender env (plTransactionHash pl) of
                     Some sentBy \<Rightarrow> Some (JStr sentBy)
                   | None \<Rightarrow> owner)
             else owner)
      in (True, w\<lparr>originalOwners := (originalOwners w)(propertyId := Some originalFrom)\<rparr>))"

text \<open>
  \<open>handlePropertyUpdated\<close> only logs, but its log line formats the price with
  \<open>ethers.formatEther\<close> outside any \<open>try\<close>: it returns when the price argument is accepted and
  throws when it is not. \<open>handlePropertyRemoved\<close> and \<open>handlePropertyMetadataUpdated\<close> log and
  return.
\<close>

definition handlePropertyUpdatedImpl :: "handlerEnv \<Rightarrow> world handler" where
  "handlePropertyUpdatedImpl env pl w = (heFormatEtherAccepts env (argAt (plArgs pl) 1), w)"

definition handlePropertyRemovedImpl :: "world handler" where
  "handlePropertyRemovedImpl pl w = (True, w)"

definition handlePropertyMetadataUpdatedImpl :: "world handler" where
  "handlePropertyMetadataUpdatedImpl pl w = (True, w)"

text \<open>
  The three status handlers call \<open>updateBookingInStrapi\<close> inside a \<open>try\<close> whose \<open>catch\<close> only
  logs. The booking id they pass on is the event argument; the lookup does not use it.
  \<open>handleBookingCompleted\<close> then runs the payout callback, if one is set, in a \<open>try\<close> of its
  own; when the update threw, the callback is skipped.
\<close>

definition idString :: "jsval option \<Rightarrow> string" where
  "idString v = (case v of Some (JBigInt i) \<Rightarrow> showInt i | Some (JNum i) \<Rightarrow> showInt i
                 | Some (JStr s) \<Rightarrow> s | _ \<Rightarrow> [])"

definition handleCheckedInImpl :: "strapiEnv \<Rightarrow> strapi handler" where
  "handleCheckedInImpl env pl st =
     (True, snd (updateBookingInStrapi env (idString (argAt (plArgs pl) 0)) ''Active'' st))"

definition handleBookingCancelledImpl :: "strapiEnv \<Rightarrow> strapi handler" where
  "handleBookingCancelledImpl env pl st =
     (True, snd (updateBookingInStrapi env (idString (argAt (plArgs pl) 0)) ''Cancelled'' st))"

definition handleBookingCompletedImpl :: "handlerEnv \<Rightarrow> world handler" where
  "handleBookingCompletedImpl env pl w =
     (case updateBookingInStrapi (heStrapi env) (idString (argAt (plArgs pl) 0)) ''Complete'' (cms w) of
        (Inl _, st') \<Rightarrow> (True, w\<lparr>cms := st'\<rparr>)
      | (Inr _, st') \<Rightarrow>
          (case heOnBookingCompleted env of
             None \<Rightarrow> (True, w\<lparr>cms := st'\<rparr>)
           | Some callback \<Rightarrow> (True, snd (callback (argAt (plArgs pl) 0) (w\<lparr>cms := st'\<rparr>)))))"

text \<open>A handler that acts on the CMS alone, as a handler on the whole projection.\<close>

definition onCms :: "strapi handler \<Rightarrow> world handler" where
  "onCms h pl w = (case h pl (cms w) of (ok, st') \<Rightarrow> (ok, w\<lparr>cms := st'\<rparr>))"

text \<open>The listener as the source wires it: every key of the handler table with its method.\<close>

definition realConfig :: "handlerEnv \<Rightarrow> world config" where
  "realConfig env =
     \<lparr> handlePropertyListed = handlePropertyListedImpl env,
       handlePropertyUpdated = handlePropertyUpdatedImpl env,
       handlePropertyRemoved = handlePropertyRemovedImpl,
       handlePropertyMetadataUpdated = handlePropertyMetadataUpdatedImpl,
       handleBookingCreated =
         onCms (handleBookingCreatedImpl (heStrapi env) (heChainBookings env)),
       handleBookingCreatedPaid =
         onCms (handleBookingCreatedPaidImpl (heStrapi env) (heChainBookings env)),
       handleCheckedIn = onCms (handleCheckedInImpl (heStrapi env)),
       handleBookingCompleted = handleBookingCompletedImpl env,
       handleBookingCancelled = onCms (handleBookingCancelledImpl (heStrapi env)),
       stringify = heStringify env, dateNow = heDateNow env \<rparr>"

subsection \<open>Predicates, invariants and fixtures\<close>

definition live :: "Booking \<Rightarrow> bool" where
  "live b = (status b \<noteq> Cancelled \<and> status b \<noteq> Refunded)"

definition overlaps :: "nat \<Rightarrow> nat \<Rightarrow> Booking \<Rightarrow> bool" where
  "overlaps ci co b = (ci < checkOutDate b \<and> co > checkInDate b)"

definition isCreate :: "call \<Rightarrow> bool" where
  "isCreate c = (case c of CreateBooking _ _ _ _ _ \<Rightarrow> True | CreateBookingPaid _ _ _ _ _ _ \<Rightarrow> True | _ \<Rightarrow> False)"

definition fee_inv :: "contract \<Rightarrow> bool" where
  "fee_inv s = (\<forall>i. platformFee (bookings s i) + hostAmount (bookings s i) = totalAmount (bookings s i))"

definition ids_inv :: "contract \<Rightarrow> bool" where
  "ids_inv s = ((\<forall>p. \<forall>i\<in>set (propertyBookings s p). i \<le> bookingIdCounter s) \<and>
     (\<forall>i. 1 \<le> i \<and> i \<le> bookingIdCounter s \<longrightarrow>
          i \<in> set (propertyBookings s (propertyId (bookings s i)))))"

definition noOverlap_inv :: "contract \<Rightarrow> bool" where
  "noOverlap_inv s = (\<forall>p. \<forall>i\<in>set (propertyBookings s p). \<forall>j\<in>set (propertyBookings s p).
      i \<noteq> j \<and> live (bookings s i) \<and> live (bookings s j) \<longrightarrow>
      \<not> overlaps (checkInDate (bookings s i)) (checkOutDate (bookings s i)) (bookings s j))"

fun run :: "(env \<times> call) list \<Rightarrow> contract \<Rightarrow> contract" where
  "run [] s = s"
| "run ((e, c) # cs) s = (case exec e c s of Inl _ \<Rightarrow> run cs s | Inr s' \<Rightarrow> run cs s')"

text \<open>
  Fixtures: the deployer and owner is address 1, the treasury 2, the contract itself 3;
  property \<open>P\<close> is listed, active and owned by host 10; the guest is 20; the fee setting is 30
  (3 percent of the denominator 1000); the token accepts every transfer.
\<close>

definition envAt :: "address \<Rightarrow> nat \<Rightarrow> env" where
  "envAt a t = \<lparr> sender = a, timestamp = t,
      properties = (\<lambda>p. if p = ''P'' then (10, True) else (0, False)),
      platformFeePercentage = 30, tokenAccepts = (\<lambda>_ _. True) \<rparr>"

definition twoBookings :: contract where
  "twoBookings = run [(envAt 20 1000, CreateBooking ''P'' 605800 865000 300 []),
                      (envAt 20 1000, CreateBookingPaid ''P'' 865000 1124200 300 ''ref'' [])]
                     (deployed 1 2 3)"

text \<open>
  A booking that goes through a missed check-in: created at time 1000 for
  [605800, 865000), window opened at 605800, check-in missed at 692201 (dispute deadline
  778601), the guest alone resolves at 700000, escalation at 778602, and the owner
  resolves with 40 percent to the guest.
\<close>

definition disputed :: contract where
  "disputed = run [(envAt 20 1000, CreateBooking ''P'' 605800 865000 300 []),
                   (envAt 30 605800, TriggerCheckInWindow 1),
                   (envAt 30 692201, ProcessMissedCheckIn 1)]
                  (deployed 1 2 3)"

definition guestResolved :: contract where
  "guestResolved = run [(envAt 20 700000, GuestResolveDispute 1)] disputed"

definition escalated :: contract where
  "escalated = run [(envAt 30 778602, EscalateDispute 1)] guestResolved"

definition adminResolved :: contract where
  "adminResolved = run [(envAt 1 800000, AdminResolveDispute 1 40)] escalated"

definition ghost_inv :: "contract \<Rightarrow> bool" where
  "ghost_inv s = (\<forall>i. i > bookingIdCounter s \<longrightarrow> bookings s i = zeroBooking)"

definition resolved_inv :: "contract \<Rightarrow> bool" where
  "resolved_inv s = (\<forall>i. isResolvedByHost (bookings s i) \<and> isResolvedByGuest (bookings s i)
      \<longrightarrow> status (bookings s i) = Completed)"

definition bothResolved :: contract where
  "bothResolved = run [(envAt 10 700001, HostResolveDispute 1)] guestResolved"

definition escalatedPaid :: contract where
  "escalatedPaid = run [(envAt 20 1000, CreateBookingPaid ''P'' 605800 865000 300 ''ref'' []),
                   (envAt 30 605800, TriggerCheckInWindow 1),
                   (envAt 30 692201, ProcessMissedCheckIn 1),
                   (envAt 30 778602, EscalateDispute 1)]
                  (deployed 1 2 3)"

definition bothFlagsDisputed :: contract where
  "bothFlagsDisputed =
     setBooking 1 ((bookings guestResolved 1)\<lparr>isResolvedByHost := True\<rparr>) guestResolved"

subsection \<open>Reading an event the way \<open>processEvent\<close> does\<close>

definition knownFormat :: "event \<Rightarrow> bool" where
  "knownFormat ev = (evName ev \<noteq> [] \<or> evEventName ev \<noteq> [])"

definition nameOf :: "event \<Rightarrow> string" where
  "nameOf ev = (if evName ev \<noteq> [] then evName ev else evEventName ev)"

definition payloadOf :: "'p config \<Rightarrow> event \<Rightarrow> payload" where
  "payloadOf cfg ev =
     \<lparr> plName = nameOf ev, plArgs = evArgs ev,
       plTimestamp = (if evName ev \<noteq> [] then evTimestamp ev else dateNow cfg),
       plTransactionHash = orUnknown (evTransactionHash ev) \<rparr>"

text \<open>The handler call \<open>processEvent\<close> makes for an event, if a handler is registered.\<close>

definition runHandler :: "'p config \<Rightarrow> event \<Rightarrow> 'p \<Rightarrow> (bool \<times> 'p) option" where
  "runHandler cfg ev p =
     (case getEventHandler cfg (nameOf ev) of
        None \<Rightarrow> None
      | Some handler \<Rightarrow> Some (handler (payloadOf cfg ev) p))"

text \<open>
  Fixtures for the booking handlers: a CMS that knows property \<open>P\<close> as entry 10 and has no
  booking; every request goes through and the property recovery is never needed. The chain
  the handlers read back from is the contract state \<open>twoBookings\<close>. \<open>cmsApplied\<close> is the CMS
  after the creation event of ledger booking 1 was applied; \<open>cmsRelisted\<close> is a CMS that
  holds that booking entry while property \<open>P\<close> is now entry 12.
\<close>

definition okEnv :: strapiEnv where
  "okEnv = \<lparr> autoSync = True, bookingsGetOk = True, propertiesGetOk = True,
      propertyBookingsGetOk = True, postOk = True, putOk = True,
      recoverProperty = (\<lambda>pid st. (False, st)) \<rparr>"

definition cmsP :: strapi where
  "cmsP = \<lparr> sProperties = [\<lparr> spId = 10, spBlockchainPropertyId = ''P'' \<rparr>],
            sBookings = [], sNextId = 11 \<rparr>"

definition chainOf :: "contract \<Rightarrow> nat \<Rightarrow> Booking option" where
  "chainOf s i = Some (bookings s i)"

definition createdPayload :: "int \<Rightarrow> string \<Rightarrow> int \<Rightarrow> payload" where
  "createdPayload bid pid ci =
     \<lparr> plName = ''BookingCreated'',
       plArgs = [JBigInt bid, JStr pid, JStr ''0x14'', JBigInt ci, JBigInt 300],
       plTimestamp = 0, plTransactionHash = ''0xcc'' \<rparr>"

definition firstEntry :: strapiBooking where
  "firstEntry = \<lparr> sbId = 11, sbProperty = 10, sbBlockchainBookingId = ''1'',
         sbBookingStatus = ''Upcoming'', sbStartDate = 605800, sbEndDate = 865000,
         sbNumberOfNights = 3, sbPaymentReference = [] \<rparr>"

definition cmsApplied :: strapi where
  "cmsApplied = cmsP\<lparr> sBookings := [firstEntry], sNextId := 12 \<rparr>"

definition cmsRelisted :: strapi where
  "cmsRelisted = \<lparr> sProperties = [\<lparr> spId = 12, spBlockchainPropertyId = ''P'' \<rparr>],
            sBookings = [firstEntry], sNextId = 13 \<rparr>"

text \<open>The events whose registered handler writes to the CMS.\<close>

definition bookingNames :: "string list" where
  "bookingNames = [''BookingCreated'', ''BookingCreatedPaid'', ''CheckedIn'',
                   ''BookingCompleted'', ''BookingCancelled'']"

subsection \<open>Fixtures for the listener\<close>

text \<open>
  \<open>plainStringify\<close> takes the place of \<open>JSON.stringify\<close> in the examples. The listener of
  the examples reads the contract state \<open>twoBookings\<close>, finds no meta-transaction log, has no
  payout callback, and its \<open>formatEther\<close> accepts a \<open>bigint\<close> and nothing else. \<open>downEnv\<close> is
  the CMS with every request going through except the POST.
\<close>

fun plainVal :: "jsval \<Rightarrow> string" where
  "plainVal (JBigInt i) = showInt i"
| "plainVal (JNum i) = showInt i"
| "plainVal (JStr s) = CHR 0x22 # s @ [CHR 0x22]"
| "plainVal (JBool b) = (if b then ''true'' else ''false'')"

definition plainStringify :: "jsval list \<Rightarrow> string" where
  "plainStringify vs = ''['' @ concat (map (\<lambda>v. plainVal v @ '','') vs) @ '']''"

definition downEnv :: strapiEnv where
  "downEnv = okEnv\<lparr>postOk := False\<rparr>"

definition listenerEnv :: "strapiEnv \<Rightarrow> handlerEnv" where
  "listenerEnv io = \<lparr> heStrapi = io, heChainBookings = chainOf twoBookings,
      heMetaTxSender = (\<lambda>h. None),
      heFormatEtherAccepts = (\<lambda>v. case v of Some (JBigInt i) \<Rightarrow> True | _ \<Rightarrow> False),
      heOnBookingCompleted = None, heStringify = plainStringify, heDateNow = 0 \<rparr>"

text \<open>
  The logs of block 5: the creation of ledger booking 1 on property \<open>P\<close> and the listing of a
  property \<open>Q\<close>. \<open>evUpdatedBad\<close> is a custom event object for \<open>PropertyUpdated\<close> that carries
  no price; \<open>evUnhandled\<close> has a name without handler and \<open>evNameless\<close> no name at all.
\<close>

definition evCreated :: event where
  "evCreated = \<lparr> evName = [], evEventName = ''BookingCreated'',
      evArgs = [JBigInt 1, JStr ''P'', JStr ''0x14'', JBigInt 605800, JBigInt 300],
      evTimestamp = 0, evTransactionHash = ''0xcc'', evBlockNumber = 5,
      evTransactionIndex = 0 \<rparr>"

definition evListed :: event where
  "evListed = \<lparr> evName = [], evEventName = ''PropertyListed'',
      evArgs = [JStr ''Q'', JStr ''0x77'', JStr ''0x0a''],
      evTimestamp = 0, evTransactionHash = ''0xbb'', evBlockNumber = 5,
      evTransactionIndex = 1 \<rparr>"

definition evUpdatedBad :: event where
  "evUpdatedBad = \<lparr> evName = ''PropertyUpdated'', evEventName = [], evArgs = [JStr ''P''],
      evTimestamp = 7, evTransactionHash = ''0xaa'', evBlockNumber = 5,
      evTransactionIndex = 4 \<rparr>"

definition evUnhandled :: event where
  "evUnhandled = \<lparr> evName = [], evEventName = ''Paused'', evArgs = [],
      evTimestamp = 0, evTransactionHash = ''0xdd'', evBlockNumber = 5,
      evTransactionIndex = 2 \<rparr>"

definition evNameless :: event where
  "evNameless = \<lparr> evName = [], evEventName = [], evArgs = [],
      evTimestamp = 0, evTransactionHash = ''0xee'', evBlockNumber = 5,
      evTransactionIndex = 3 \<rparr>"

definition rpcAt :: "nat \<Rightarrow> rpc" where
  "rpcAt head = \<lparr> getBlockNumber = Some head,
      propertyQuery = (\<lambda>f t. Some (filter (\<lambda>ev. f \<le> evBlockNumber ev \<and> evBlockNumber ev \<le> t)
                                      [evListed])),
      bookingQuery = (\<lambda>f t. Some (filter (\<lambda>ev. f \<le> evBlockNumber ev \<and> evBlockNumber ev \<le> t)
                                      [evCreated])) \<rparr>"

definition world0 :: world where
  "world0 = \<lparr> cms = cmsP, originalOwners = (\<lambda>k. None) \<rparr>"

definition listener0 :: "world listener" where
  "listener0 = \<lparr> lastProcessedBlock = 4, processedEvents = [], processingEvents = [],
      projection = world0 \<rparr>"

text \<open>The listener after one poll at head 5 during which the CMS refuses every POST.\<close>

definition afterFailedPoll :: "world listener" where
  "afterFailedPoll = processNewBlocks (realConfig (listenerEnv downEnv)) (rpcAt 5) listener0"

section \<open>Properties of the contract\<close>

lemma conflictLoop_iff:
  "conflictLoop bs ids ci co = (\<exists>i\<in>set ids. live (bs i) \<and> overlaps ci co (bs i))"
  by (induction ids) (auto simp: live_def overlaps_def)

lemma safeTransfer_frame:
  "safeTransfer e to amt s = Inr s' \<Longrightarrow> s' = s\<lparr>transfers := transfers s @ [(self s, to, amt)]\<rparr>"
  by (auto simp: safeTransfer_def split: if_splits)

lemma safeTransferFrom_frame:
  "safeTransferFrom e frm amt s = Inr s' \<Longrightarrow> s' = s\<lparr>transfers := transfers s @ [(frm, self s, amt)]\<rparr>"
  by (auto simp: safeTransferFrom_def split: if_splits)

lemma completeBooking_bookings:
  "completeBooking e bid s = Inr s' \<Longrightarrow>
     bookings s' = (bookings s)(bid := (bookings s bid)\<lparr>status := Completed\<rparr>) \<and>
     propertyBookings s' = propertyBookings s \<and> bookingIdCounter s' = bookingIdCounter s"
  by (auto simp: completeBooking_def Let_def setBooking_def split: if_splits sum.splits
           dest!: safeTransfer_frame)

lemma exec_frame:
  assumes "exec e c s = Inr s'" "\<not> isCreate c"
  shows "propertyBookings s' = propertyBookings s \<and> bookingIdCounter s' = bookingIdCounter s \<and>
    (\<forall>i. propertyId (bookings s' i) = propertyId (bookings s i) \<and>
         checkInDate (bookings s' i) = checkInDate (bookings s i) \<and>
         checkOutDate (bookings s' i) = checkOutDate (bookings s i) \<and>
         totalAmount (bookings s' i) = totalAmount (bookings s i) \<and>
         platformFee (bookings s' i) = platformFee (bookings s i) \<and>
         hostAmount (bookings s' i) = hostAmount (bookings s i) \<and>
         (live (bookings s' i) \<longrightarrow> live (bookings s i)))"
proof (cases c)
  case (TriggerCheckInWindow bid)
  with assms show ?thesis
    by (auto simp: triggerCheckInWindow_def Let_def setBooking_def live_def split: if_splits)
next
  case (CheckIn bid)
  with assms show ?thesis
    by (auto simp: checkIn_def Let_def setBooking_def live_def split: if_splits)
next
  case (ProcessMissedCheckIn bid)
  with assms show ?thesis
    by (auto simp: processMissedCheckIn_def Let_def setBooking_def live_def split: if_splits)
next
  case (HostResolveDispute bid)
  with assms show ?thesis
    by (auto simp: hostResolveDispute_def Let_def setBooking_def live_def split: if_splits
        dest!: completeBooking_bookings)
next
  case (GuestResolveDispute bid)
  with assms show ?thesis
    by (auto simp: guestResolveDispute_def Let_def setBooking_def live_def split: if_splits
        dest!: completeBooking_bookings)
next
  case (EscalateDispute bid)
  with assms show ?thesis
    by (auto simp: escalateDispute_def Let_def setBooking_def live_def split: if_splits)
next
  case (AdminResolveDispute bid pct)
  with assms show ?thesis
    by (auto simp: adminResolveDispute_def payIfPositive_def Let_def setBooking_def live_def
        split: if_splits sum.splits dest!: safeTransfer_frame)
next
  case (CancelBooking bid)
  with assms show ?thesis
    by (auto simp: cancelBooking_def Let_def setBooking_def live_def
        split: if_splits sum.splits dest!: safeTransfer_frame)
next
  case (SetTreasury t)
  with assms show ?thesis
    by (auto simp: setTreasury_def split: if_splits)
qed (use assms in \<open>auto simp: isCreate_def\<close>)

lemma storeBooking_result:
  assumes "storeBooking e pid g h ci co amount uri pref off s = Inr (bid, s')"
  shows "bid = bookingIdCounter s + 1 \<and> bookingIdCounter s' = bid \<and>
     (amount * platformFeePercentage e) div 1000 \<le> amount \<and>
     bookings s' = (bookings s)
        (bid := newBooking bid pid g h ci co amount ((amount * platformFeePercentage e) div 1000) uri pref off) \<and>
     propertyBookings s' = (propertyBookings s)(pid := propertyBookings s pid @ [bid])"
  using assms by (auto simp: storeBooking_def Let_def split: if_splits)

lemma createBooking_result:
  assumes "createBooking e pid ci co amount uri s = Inr (bid, s')"
  shows "\<not> hasBookingConflict s pid ci co \<and> ci > timestamp e \<and> co > ci \<and> co - ci \<ge> ONE_DAY \<and>
     bid = bookingIdCounter s + 1 \<and> bookingIdCounter s' = bid \<and>
     (amount * platformFeePercentage e) div 1000 \<le> amount \<and>
     bookings s' = (bookings s)
        (bid := newBooking bid pid (sender e) (fst (properties e pid)) ci co amount
                  ((amount * platformFeePercentage e) div 1000) uri [] False) \<and>
     propertyBookings s' = (propertyBookings s)(pid := propertyBookings s pid @ [bid])"
proof -
  from assms obtain s1 where
    g: "\<not> hasBookingConflict s pid ci co" "ci > timestamp e" "co > ci" "(co - ci) div ONE_DAY > 0"
    and t: "safeTransferFrom e (sender e) amount s = Inr s1"
    and st: "storeBooking e pid (sender e) (fst (properties e pid)) ci co amount uri [] False s1 = Inr (bid, s')"
    by (auto simp: createBooking_def Let_def split: if_splits sum.splits)
  from g(4) have "co - ci \<ge> ONE_DAY"
    by (simp add: ONE_DAY_def div_greater_zero_iff)
  with g t st show ?thesis
    using storeBooking_result[OF st] safeTransferFrom_frame[OF t] by simp
qed

lemma createBookingPaid_result:
  assumes "createBookingPaid e pid ci co amount pref uri s = Inr (bid, s')"
  shows "\<not> hasBookingConflict s pid ci co \<and> ci > timestamp e \<and> co > ci \<and> co - ci \<ge> ONE_DAY \<and>
     bid = bookingIdCounter s + 1 \<and> bookingIdCounter s' = bid \<and>
     (amount * platformFeePercentage e) div 1000 \<le> amount \<and>
     bookings s' = (bookings s)
        (bid := newBooking bid pid (sender e) (fst (properties e pid)) ci co amount
                  ((amount * platformFeePercentage e) div 1000) uri pref True) \<and>
     propertyBookings s' = (propertyBookings s)(pid := propertyBookings s pid @ [bid])"
proof -
  from assms have
    g: "\<not> hasBookingConflict s pid ci co" "ci > timestamp e" "co > ci" "(co - ci) div ONE_DAY > 0"
    and st: "storeBooking e pid (sender e) (fst (properties e pid)) ci co amount uri pref True s = Inr (bid, s')"
    by (auto simp: createBookingPaid_def Let_def split: if_splits)
  from g(4) have "co - ci \<ge> ONE_DAY"
    by (simp add: ONE_DAY_def div_greater_zero_iff)
  with g st show ?thesis
    using storeBooking_result[OF st] by simp
qed

text \<open>What a successful creation call does to the state, whichever variant it is.\<close>

lemma exec_create:
  assumes "exec e c s = Inr s'" "isCreate c"
  shows "\<exists>pid ci co g h amount fee uri pref off.
     \<not> hasBookingConflict s pid ci co \<and> fee \<le> amount \<and>
     bookingIdCounter s' = Suc (bookingIdCounter s) \<and>
     bookings s' = (bookings s)
        (Suc (bookingIdCounter s) := newBooking (Suc (bookingIdCounter s)) pid g h ci co amount fee uri pref off) \<and>
     propertyBookings s' = (propertyBookings s)(pid := propertyBookings s pid @ [Suc (bookingIdCounter s)])"
proof (cases c)
  case (CreateBooking pid ci co amount uri)
  with assms obtain bid where "createBooking e pid ci co amount uri s = Inr (bid, s')"
    by (cases "createBooking e pid ci co amount uri s") auto
  from createBooking_result[OF this] show ?thesis by (simp del: fun_upd_apply) blast
next
  case (CreateBookingPaid pid ci co amount pref uri)
  with assms obtain bid where "createBookingPaid e pid ci co amount pref uri s = Inr (bid, s')"
    by (cases "createBookingPaid e pid ci co amount pref uri s") auto
  from createBookingPaid_result[OF this] show ?thesis by (simp del: fun_upd_apply) blast
qed (use assms in \<open>auto simp: isCreate_def\<close>)

lemma fee_inv_exec:
  assumes "fee_inv s" "exec e c s = Inr s'"
  shows "fee_inv s'"
proof (cases "isCreate c")
  case True
  from exec_create[OF assms(2) True] assms(1) show ?thesis
    by (auto simp: fee_inv_def newBooking_def)
next
  case False
  from exec_frame[OF assms(2) False] assms(1) show ?thesis
    by (simp add: fee_inv_def)
qed

lemma fee_inv_evolves: "evolves s s' \<Longrightarrow> fee_inv s \<Longrightarrow> fee_inv s'"
  by (induction rule: evolves.induct) (auto intro: fee_inv_exec)

lemma fee_inv_deployed: "fee_inv (deployed d t this)"
  by (simp add: fee_inv_def deployed_def zeroBooking_def)

lemma overlaps_sym:
  "overlaps (checkInDate a) (checkOutDate a) b = overlaps (checkInDate b) (checkOutDate b) a"
  by (auto simp: overlaps_def)

lemma ids_inv_exec:
  assumes "ids_inv s" "exec e c s = Inr s'"
  shows "ids_inv s'"
proof (cases "isCreate c")
  case True
  from exec_create[OF assms(2) True] obtain pid ci co g h amount fee uri pref off where
    c: "bookingIdCounter s' = Suc (bookingIdCounter s)"
    and b: "bookings s' = (bookings s)
        (Suc (bookingIdCounter s) := newBooking (Suc (bookingIdCounter s)) pid g h ci co amount fee uri pref off)"
    and p: "propertyBookings s' = (propertyBookings s)(pid := propertyBookings s pid @ [Suc (bookingIdCounter s)])"
    by blast
  have le: "\<And>q i. i \<in> set (propertyBookings s q) \<Longrightarrow> i \<le> bookingIdCounter s"
    using assms(1) by (simp add: ids_inv_def)
  have 1: "\<forall>p. \<forall>i\<in>set (propertyBookings s' p). i \<le> bookingIdCounter s'"
    by (auto simp: c p dest!: le)
  have 2: "\<forall>i. 1 \<le> i \<and> i \<le> bookingIdCounter s' \<longrightarrow>
          i \<in> set (propertyBookings s' (propertyId (bookings s' i)))"
  proof (intro allI impI)
    fix i assume i: "1 \<le> i \<and> i \<le> bookingIdCounter s'"
    show "i \<in> set (propertyBookings s' (propertyId (bookings s' i)))"
    proof (cases "i = Suc (bookingIdCounter s)")
      case True
      then show ?thesis by (simp add: b p newBooking_def)
    next
      case False
      with i c have "1 \<le> i \<and> i \<le> bookingIdCounter s" by simp
      with assms(1) have "i \<in> set (propertyBookings s (propertyId (bookings s i)))"
        by (simp add: ids_inv_def)
      with False show ?thesis by (auto simp: b p)
    qed
  qed
  from 1 2 show ?thesis by (simp add: ids_inv_def)
next
  case False
  from exec_frame[OF assms(2) False] assms(1) show ?thesis
    by (simp add: ids_inv_def)
qed

lemma noOverlap_inv_exec:
  assumes "ids_inv s" "noOverlap_inv s" "exec e c s = Inr s'"
  shows "noOverlap_inv s'"
proof (cases "isCreate c")
  case True
  from exec_create[OF assms(3) True] obtain pid ci co g h amount fee uri pref off where
    nc: "\<not> hasBookingConflict s pid ci co"
    and b: "bookings s' = (bookings s)
        (Suc (bookingIdCounter s) := newBooking (Suc (bookingIdCounter s)) pid g h ci co amount fee uri pref off)"
    and p: "propertyBookings s' = (propertyBookings s)(pid := propertyBookings s pid @ [Suc (bookingIdCounter s)])"
    by blast
  let ?n = "Suc (bookingIdCounter s)"
  have fresh: "\<And>q. ?n \<notin> set (propertyBookings s q)"
    using assms(1) by (fastforce simp: ids_inv_def)
  have old: "\<And>q i. i \<in> set (propertyBookings s q) \<Longrightarrow> bookings s' i = bookings s i"
    using fresh by (auto simp: b)
  have new: "\<And>i. i \<in> set (propertyBookings s pid) \<Longrightarrow> live (bookings s i) \<Longrightarrow>
      \<not> overlaps ci co (bookings s i)"
    using nc by (auto simp: hasBookingConflict_def conflictLoop_iff)
  have nb: "checkInDate (bookings s' ?n) = ci" "checkOutDate (bookings s' ?n) = co"
    by (simp_all add: b newBooking_def)
  show ?thesis
    unfolding noOverlap_inv_def
  proof (intro allI ballI impI)
    fix q i j
    assume i: "i \<in> set (propertyBookings s' q)" and j: "j \<in> set (propertyBookings s' q)"
      and h: "i \<noteq> j \<and> live (bookings s' i) \<and> live (bookings s' j)"
    show "\<not> overlaps (checkInDate (bookings s' i)) (checkOutDate (bookings s' i)) (bookings s' j)"
    proof (cases "q = pid")
      case False
      with i j have ij: "i \<in> set (propertyBookings s q)" "j \<in> set (propertyBookings s q)"
        by (simp_all add: p)
      with h assms(2) show ?thesis
        by (simp add: old noOverlap_inv_def)
    next
      case True
      consider (oo) "i \<in> set (propertyBookings s pid)" "j \<in> set (propertyBookings s pid)"
        | (no) "i = ?n" "j \<in> set (propertyBookings s pid)"
        | (on) "i \<in> set (propertyBookings s pid)" "j = ?n"
        using i j h True by (auto simp: p)
      then show ?thesis
      proof cases
        case oo
        with h assms(2) show ?thesis by (simp add: old noOverlap_inv_def)
      next
        case no
        with h new[of j] show ?thesis by (simp add: old nb)
      next
        case on
        with h new[of i] have "\<not> overlaps ci co (bookings s' i)" by (simp add: old)
        then show ?thesis using on nb by (auto simp: overlaps_def)
      qed
    qed
  qed
next
  case False
  from exec_frame[OF assms(3) False] assms(2) show ?thesis
    by (simp add: noOverlap_inv_def overlaps_def)
qed

lemma booking_invs_evolves:
  "evolves s s' \<Longrightarrow> ids_inv s \<and> noOverlap_inv s \<Longrightarrow> ids_inv s' \<and> noOverlap_inv s'"
  by (induction rule: evolves.induct) (auto intro: ids_inv_exec noOverlap_inv_exec)

lemma booking_invs_deployed: "ids_inv (deployed d t this) \<and> noOverlap_inv (deployed d t this)"
  by (simp add: ids_inv_def noOverlap_inv_def deployed_def)

lemma reachable_disjoint_stays:
  assumes "reachable s"
    and "1 \<le> i" "i \<le> bookingIdCounter s" "1 \<le> j" "j \<le> bookingIdCounter s" "i \<noteq> j"
    and "propertyId (bookings s i) = propertyId (bookings s j)"
    and "live (bookings s i)" "live (bookings s j)"
  shows "{checkInDate (bookings s i) ..< checkOutDate (bookings s i)} \<inter>
         {checkInDate (bookings s j) ..< checkOutDate (bookings s j)} = {}"
proof -
  from assms(1) have inv: "ids_inv s" "noOverlap_inv s"
    using booking_invs_evolves booking_invs_deployed by (auto simp: reachable_def)
  let ?p = "propertyId (bookings s i)"
  from inv(1) assms have "i \<in> set (propertyBookings s ?p)" "j \<in> set (propertyBookings s ?p)"
    by (auto simp: ids_inv_def)
  with inv(2) assms have "\<not> overlaps (checkInDate (bookings s i)) (checkOutDate (bookings s i)) (bookings s j)"
    unfolding noOverlap_inv_def by blast
  then show ?thesis
    by (auto simp: overlaps_def)
qed

lemma evolves_trans: "evolves s1 s2 \<Longrightarrow> evolves s0 s1 \<Longrightarrow> evolves s0 s2"
  by (induction rule: evolves.induct) (auto intro: evolves.intros)

lemma evolves_run: "evolves s (run cs s)"
proof (induction cs arbitrary: s)
  case Nil
  show ?case by (simp add: evolves_refl)
next
  case (Cons x cs)
  obtain e c where x: "x = (e, c)" by (cases x)
  show ?case
  proof (cases "exec e c s")
    case (Inl err)
    with Cons x show ?thesis by simp
  next
    case (Inr s')
    have "evolves s s'" using Inr evolves_call[OF evolves_refl] by blast
    with Cons[of s'] Inr x show ?thesis by (auto intro: evolves_trans)
  qed
qed

lemma reachable_run: "reachable (run cs (deployed d t this))"
  unfolding reachable_def using evolves_run by blast

lemma createBooking_conflict_iff:
  "createBooking e pid ci co amount uri s = Inl (Revert ''Booking dates conflict with existing booking'')
   \<longleftrightarrow> snd (properties e pid) \<and> fst (properties e pid) \<noteq> 0 \<and> fst (properties e pid) \<noteq> sender e \<and>
       timestamp e < ci \<and> ci < co \<and>
       (\<exists>i\<in>set (propertyBookings s pid). live (bookings s i) \<and> overlaps ci co (bookings s i))"
  by (auto simp: createBooking_def Let_def hasBookingConflict_def conflictLoop_iff
       safeTransferFrom_def storeBooking_def split: sum.splits)

lemma createBookingPaid_conflict_iff:
  "createBookingPaid e pid ci co amount pref uri s = Inl (Revert ''Booking dates conflict with existing booking'')
   \<longleftrightarrow> snd (properties e pid) \<and> fst (properties e pid) \<noteq> 0 \<and>
       timestamp e < ci \<and> ci < co \<and>
       (\<exists>i\<in>set (propertyBookings s pid). live (bookings s i) \<and> overlaps ci co (bookings s i))"
  by (auto simp: createBookingPaid_def Let_def hasBookingConflict_def conflictLoop_iff
       storeBooking_def)

lemma storeBooking_succeeds_iff:
  "(\<exists>bid s'. storeBooking e pid g h ci co amount uri pref off s = Inr (bid, s')) \<longleftrightarrow>
     amount * platformFeePercentage e \<le> MAX_UINT256 \<and>
     (amount * platformFeePercentage e) div 1000 \<le> amount \<and> bookingIdCounter s < MAX_UINT256"
  by (auto simp: storeBooking_def Let_def)

lemma createBookingPaid_succeeds_iff:
  "(\<exists>bid s'. createBookingPaid e pid ci co amount pref uri s = Inr (bid, s')) \<longleftrightarrow>
     snd (properties e pid) \<and> fst (properties e pid) \<noteq> 0 \<and> timestamp e < ci \<and> ci < co \<and>
     \<not> hasBookingConflict s pid ci co \<and> ONE_DAY \<le> co - ci \<and>
     amount * platformFeePercentage e \<le> MAX_UINT256 \<and>
     (amount * platformFeePercentage e) div 1000 \<le> amount \<and> bookingIdCounter s < MAX_UINT256"
proof -
  have d: "(0 < (co - ci) div ONE_DAY) = (ONE_DAY \<le> co - ci)"
    by (simp add: ONE_DAY_def div_greater_zero_iff)
  show ?thesis
    unfolding createBookingPaid_def Let_def
    using storeBooking_succeeds_iff[of e pid "sender e" "fst (properties e pid)" ci co amount uri pref True s]
    by (auto simp: d)
qed

lemma createBooking_succeeds_iff:
  "(\<exists>bid s'. createBooking e pid ci co amount uri s = Inr (bid, s')) \<longleftrightarrow>
     snd (properties e pid) \<and> fst (properties e pid) \<noteq> 0 \<and> fst (properties e pid) \<noteq> sender e \<and>
     timestamp e < ci \<and> ci < co \<and>
     \<not> hasBookingConflict s pid ci co \<and> ONE_DAY \<le> co - ci \<and>
     tokenAccepts e (transfers s) (sender e, self s, amount) \<and>
     amount * platformFeePercentage e \<le> MAX_UINT256 \<and>
     (amount * platformFeePercentage e) div 1000 \<le> amount \<and> bookingIdCounter s < MAX_UINT256"
proof -
  have d: "(0 < (co - ci) div ONE_DAY) = (ONE_DAY \<le> co - ci)"
    by (simp add: ONE_DAY_def div_greater_zero_iff)
  let ?s1 = "s\<lparr>transfers := transfers s @ [(sender e, self s, amount)]\<rparr>"
  have c: "bookingIdCounter ?s1 = bookingIdCounter s" by simp
  show ?thesis
    unfolding createBooking_def Let_def safeTransferFrom_def
    using storeBooking_succeeds_iff[of e pid "sender e" "fst (properties e pid)" ci co amount uri "[]" False ?s1]
    by (auto simp: d)
qed

lemma back_to_back_no_conflict:
  assumes "\<forall>i\<in>set (propertyBookings s pid). live (bookings s i) \<longrightarrow>
             checkOutDate (bookings s i) \<le> ci \<or> co \<le> checkInDate (bookings s i)"
  shows "\<not> hasBookingConflict s pid ci co"
  using assms by (auto simp: hasBookingConflict_def conflictLoop_iff overlaps_def)

lemma twoBookings_values:
  "bookingIdCounter twoBookings = 2"
  "propertyId (bookings twoBookings 1) = ''P''" "propertyId (bookings twoBookings 2) = ''P''"
  "checkInDate (bookings twoBookings 1) = 605800" "checkOutDate (bookings twoBookings 1) = 865000"
  "checkInDate (bookings twoBookings 2) = 865000" "checkOutDate (bookings twoBookings 2) = 1124200"
  "status (bookings twoBookings 1) = Active" "status (bookings twoBookings 2) = Active"
  "propertyBookings twoBookings ''P'' = [1, 2]"
  by (simp_all add: twoBookings_def envAt_def deployed_def createBooking_def createBookingPaid_def
      Let_def hasBookingConflict_def safeTransferFrom_def storeBooking_def newBooking_def
      ONE_DAY_def MAX_UINT256_def)

text \<open>
  Claim C1 (no double booking). In every state the contract can reach, two different
  bookings of the same property that are both neither Cancelled nor Refunded have disjoint
  intervals [checkIn, checkOut). Either creation function ends with the revert
  ``Booking dates conflict with existing booking'' exactly when its earlier checks pass and
  some booking of the property that is neither Cancelled nor Refunded satisfies
  \<open>newCheckIn < existingCheckOut\<close> and \<open>newCheckOut > existingCheckIn\<close>. A request whose range
  starts where every live booking of the property has ended (back to back included), or ends
  before it starts, meets no conflict and is created when the remaining checks pass.
\<close>

theorem no_double_booking:
  "(reachable s \<and> 1 \<le> i \<and> i \<le> bookingIdCounter s \<and> 1 \<le> j \<and> j \<le> bookingIdCounter s \<and> i \<noteq> j \<and>
      propertyId (bookings s i) = propertyId (bookings s j) \<and>
      live (bookings s i) \<and> live (bookings s j) \<longrightarrow>
      {checkInDate (bookings s i) ..< checkOutDate (bookings s i)} \<inter>
      {checkInDate (bookings s j) ..< checkOutDate (bookings s j)} = {})
   \<and> ((createBooking e pid ci co amount uri s =
          Inl (Revert ''Booking dates conflict with existing booking''))
        = (snd (properties e pid) \<and> fst (properties e pid) \<noteq> 0 \<and>
           fst (properties e pid) \<noteq> sender e \<and> timestamp e < ci \<and> ci < co \<and>
           (\<exists>k\<in>set (propertyBookings s pid). live (bookings s k) \<and>
               ci < checkOutDate (bookings s k) \<and> co > checkInDate (bookings s k))))
   \<and> ((createBookingPaid e pid ci co amount pref uri s =
          Inl (Revert ''Booking dates conflict with existing booking''))
        = (snd (properties e pid) \<and> fst (properties e pid) \<noteq> 0 \<and>
           timestamp e < ci \<and> ci < co \<and>
           (\<exists>k\<in>set (propertyBookings s pid). live (bookings s k) \<and>
               ci < checkOutDate (bookings s k) \<and> co > checkInDate (bookings s k))))
   \<and> ((\<forall>k\<in>set (propertyBookings s pid). live (bookings s k) \<longrightarrow>
           checkOutDate (bookings s k) \<le> ci \<or> co \<le> checkInDate (bookings s k)) \<and>
        snd (properties e pid) \<and> fst (properties e pid) \<noteq> 0 \<and> timestamp e < ci \<and>
        ONE_DAY \<le> co - ci \<and> amount * platformFeePercentage e \<le> MAX_UINT256 \<and>
        (amount * platformFeePercentage e) div 1000 \<le> amount \<and> bookingIdCounter s < MAX_UINT256
        \<longrightarrow> (\<exists>bid s'. createBookingPaid e pid ci co amount pref uri s = Inr (bid, s')) \<and>
            (fst (properties e pid) \<noteq> sender e \<and>
             tokenAccepts e (transfers s) (sender e, self s, amount)
             \<longrightarrow> (\<exists>bid s'. createBooking e pid ci co amount uri s = Inr (bid, s'))))"
proof (intro conjI)
  show "reachable s \<and> 1 \<le> i \<and> i \<le> bookingIdCounter s \<and> 1 \<le> j \<and> j \<le> bookingIdCounter s \<and> i \<noteq> j \<and>
      propertyId (bookings s i) = propertyId (bookings s j) \<and>
      live (bookings s i) \<and> live (bookings s j) \<longrightarrow>
      {checkInDate (bookings s i) ..< checkOutDate (bookings s i)} \<inter>
      {checkInDate (bookings s j) ..< checkOutDate (bookings s j)} = {}"
    using reachable_disjoint_stays[of s i j] by blast
next
  show "(createBooking e pid ci co amount uri s =
          Inl (Revert ''Booking dates conflict with existing booking''))
        = (snd (properties e pid) \<and> fst (properties e pid) \<noteq> 0 \<and>
           fst (properties e pid) \<noteq> sender e \<and> timestamp e < ci \<and> ci < co \<and>
           (\<exists>k\<in>set (propertyBookings s pid). live (bookings s k) \<and>
               ci < checkOutDate (bookings s k) \<and> co > checkInDate (bookings s k)))"
    using createBooking_conflict_iff[of e pid ci co amount uri s] by (simp add: overlaps_def)
next
  show "(createBookingPaid e pid ci co amount pref uri s =
          Inl (Revert ''Booking dates conflict with existing booking''))
        = (snd (properties e pid) \<and> fst (properties e pid) \<noteq> 0 \<and>
           timestamp e < ci \<and> ci < co \<and>
           (\<exists>k\<in>set (propertyBookings s pid). live (bookings s k) \<and>
               ci < checkOutDate (bookings s k) \<and> co > checkInDate (bookings s k)))"
    using createBookingPaid_conflict_iff[of e pid ci co amount pref uri s] by (simp add: overlaps_def)
next
  show "(\<forall>k\<in>set (propertyBookings s pid). live (bookings s k) \<longrightarrow>
           checkOutDate (bookings s k) \<le> ci \<or> co \<le> checkInDate (bookings s k)) \<and>
        snd (properties e pid) \<and> fst (properties e pid) \<noteq> 0 \<and> timestamp e < ci \<and>
        ONE_DAY \<le> co - ci \<and> amount * platformFeePercentage e \<le> MAX_UINT256 \<and>
        (amount * platformFeePercentage e) div 1000 \<le> amount \<and> bookingIdCounter s < MAX_UINT256
        \<longrightarrow> (\<exists>bid s'. createBookingPaid e pid ci co amount pref uri s = Inr (bid, s')) \<and>
            (fst (properties e pid) \<noteq> sender e \<and>
             tokenAccepts e (transfers s) (sender e, self s, amount)
             \<longrightarrow> (\<exists>bid s'. createBooking e pid ci co amount uri s = Inr (bid, s')))"
  proof (intro impI, elim conjE)
    assume b: "\<forall>k\<in>set (propertyBookings s pid). live (bookings s k) \<longrightarrow>
           checkOutDate (bookings s k) \<le> ci \<or> co \<le> checkInDate (bookings s k)"
      and g: "snd (properties e pid)" "fst (properties e pid) \<noteq> 0" "timestamp e < ci"
        "ONE_DAY \<le> co - ci" "amount * platformFeePercentage e \<le> MAX_UINT256"
        "(amount * platformFeePercentage e) div 1000 \<le> amount" "bookingIdCounter s < MAX_UINT256"
    from g(4) have lt: "ci < co" by (simp add: ONE_DAY_def)
    note nc = back_to_back_no_conflict[OF b]
    show "(\<exists>bid s'. createBookingPaid e pid ci co amount pref uri s = Inr (bid, s')) \<and>
            (fst (properties e pid) \<noteq> sender e \<and>
             tokenAccepts e (transfers s) (sender e, self s, amount)
             \<longrightarrow> (\<exists>bid s'. createBooking e pid ci co amount uri s = Inr (bid, s')))"
      using g lt nc
      by (simp only: createBookingPaid_succeeds_iff createBooking_succeeds_iff) simp
  qed
qed

theorem no_double_booking_witness:
  "reachable twoBookings \<and>
   {checkInDate (bookings twoBookings 1) ..< checkOutDate (bookings twoBookings 1)} \<inter>
   {checkInDate (bookings twoBookings 2) ..< checkOutDate (bookings twoBookings 2)} = {} \<and>
   checkOutDate (bookings twoBookings 1) = checkInDate (bookings twoBookings 2) \<and>
   createBooking (envAt 20 1000) ''P'' 692200 951400 300 [] twoBookings =
     Inl (Revert ''Booking dates conflict with existing booking'') \<and>
   createBookingPaid (envAt 20 1000) ''P'' 692200 951400 300 [] [] twoBookings =
     Inl (Revert ''Booking dates conflict with existing booking'') \<and>
   (\<exists>bid s'. createBookingPaid (envAt 20 1000) ''P'' 1124200 1383400 300 [] [] twoBookings = Inr (bid, s')) \<and>
   (\<exists>bid s'. createBooking (envAt 20 1000) ''P'' 1124200 1383400 300 [] twoBookings = Inr (bid, s'))"
proof -
  have r: "reachable twoBookings"
    unfolding twoBookings_def by (rule reachable_run)
  have e: "snd (properties (envAt 20 1000) ''P'')" "fst (properties (envAt 20 1000) ''P'') = 10"
    "sender (envAt 20 1000) = 20" "timestamp (envAt 20 1000) = 1000"
    "platformFeePercentage (envAt 20 1000) = 30"
    "\<And>x y. tokenAccepts (envAt 20 1000) x y"
    by (simp_all add: envAt_def)
  note v = twoBookings_values twoBookings_values[unfolded One_nat_def]
  show ?thesis
    using r
      no_double_booking[of twoBookings 1 2 "envAt 20 1000" "''P''" 692200 951400 300 "[]" "[]"]
      no_double_booking[of twoBookings 1 2 "envAt 20 1000" "''P''" 1124200 1383400 300 "[]" "[]"]
    by (simp add: v e live_def ONE_DAY_def MAX_UINT256_def)
qed

lemmas contract_defs =
  envAt_def deployed_def createBooking_def createBookingPaid_def
  Let_def hasBookingConflict_def safeTransferFrom_def safeTransfer_def storeBooking_def newBooking_def
  triggerCheckInWindow_def processMissedCheckIn_def guestResolveDispute_def hostResolveDispute_def
  escalateDispute_def adminResolveDispute_def completeBooking_def cancelBooking_def checkIn_def
  setBooking_def payIfPositive_def resolvedStatus_def zeroBooking_def
  ONE_DAY_def MAX_UINT256_def CHECK_IN_WINDOW_def DISPUTE_RESOLUTION_WINDOW_def

lemma disputed_eq:
  "disputed = \<lparr> bookings = (\<lambda>_. zeroBooking)
       (1 := \<lparr> bookingId = 1, propertyId = ''P'', guest = 20, host = 10,
        checkInDate = 605800, checkOutDate = 865000, totalAmount = 300, platformFee = 9,
        hostAmount = 291, status = Disputed, checkInWindowStart = 605800,
        checkInDeadline = 692200, disputeDeadline = 778601,
        isCheckInComplete = False, isResolvedByHost = False, isResolvedByGuest = False,
        disputeReason = ''Missed check-in'', bookingURI = [], paymentReference = [],
        paidOffChain = False \<rparr>),
      propertyBookings = (\<lambda>_. [])(''P'' := [1]), guestBookings = (\<lambda>_. [])(20 := [1]),
      bookingIdCounter = 1, treasury = 2, ownerAddr = 1, self = 3,
      transfers = [(20, 3, 300)] \<rparr>"
  by (simp add: disputed_def contract_defs)

lemma guestResolved_eq:
  "guestResolved = disputed\<lparr>bookings := (bookings disputed)
      (1 := (bookings disputed 1)\<lparr>isResolvedByGuest := True\<rparr>)\<rparr>"
  by (simp add: guestResolved_def disputed_eq contract_defs)

lemma escalated_eq:
  "escalated = guestResolved\<lparr>bookings := (bookings guestResolved)
      (1 := (bookings guestResolved 1)\<lparr>status := EscalatedToAdmin\<rparr>)\<rparr>"
  by (simp add: escalated_def guestResolved_eq disputed_eq contract_defs)

lemma adminResolved_eq:
  "adminResolveDispute (envAt 1 800000) 1 40 escalated = Inr adminResolved \<and>
   adminResolved = escalated\<lparr>bookings := (bookings escalated)
      (1 := (bookings escalated 1)\<lparr>status := Completed\<rparr>),
      transfers := [(20, 3, 300), (3, 20, 116), (3, 10, 175), (3, 2, 9)]\<rparr>"
  by (simp add: adminResolved_def escalated_eq guestResolved_eq disputed_eq contract_defs)

lemma reachable_fixtures:
  "reachable disputed" "reachable guestResolved" "reachable escalated" "reachable adminResolved"
proof -
  show d: "reachable disputed" unfolding disputed_def by (rule reachable_run)
  then obtain a b c where 0: "evolves (deployed a b c) disputed" by (auto simp: reachable_def)
  have 1: "evolves (deployed a b c) guestResolved"
    unfolding guestResolved_def by (rule evolves_trans[OF evolves_run 0])
  have 2: "evolves (deployed a b c) escalated"
    unfolding escalated_def by (rule evolves_trans[OF evolves_run 1])
  have 3: "evolves (deployed a b c) adminResolved"
    unfolding adminResolved_def by (rule evolves_trans[OF evolves_run 2])
  from 1 2 3 show "reachable guestResolved" "reachable escalated" "reachable adminResolved"
    by (auto simp: reachable_def)
qed

text \<open>
  Claim C2 (fee conservation). In every reachable state, so after creation and after every
  later transition, \<open>adminResolveDispute\<close> included, each booking satisfies
  \<open>platformFee + hostAmount = totalAmount\<close>. Both creation functions store
  \<open>platformFee = totalAmount * platformFeePercentage / 1000\<close>, with the percentage read at
  creation time.
\<close>

theorem fee_conservation:
  "(reachable s \<longrightarrow>
      platformFee (bookings s i) + hostAmount (bookings s i) = totalAmount (bookings s i))
   \<and> (createBooking e pid ci co amount uri s0 = Inr (bid, s') \<longrightarrow>
        totalAmount (bookings s' bid) = amount \<and>
        platformFee (bookings s' bid) = (amount * platformFeePercentage e) div 1000 \<and>
        platformFee (bookings s' bid) + hostAmount (bookings s' bid) = amount)
   \<and> (createBookingPaid e pid ci co amount pref uri s0 = Inr (bid, s') \<longrightarrow>
        totalAmount (bookings s' bid) = amount \<and>
        platformFee (bookings s' bid) = (amount * platformFeePercentage e) div 1000 \<and>
        platformFee (bookings s' bid) + hostAmount (bookings s' bid) = amount)"
proof (intro conjI impI)
  assume "reachable s"
  then have "fee_inv s"
    using fee_inv_evolves fee_inv_deployed by (auto simp: reachable_def)
  then show "platformFee (bookings s i) + hostAmount (bookings s i) = totalAmount (bookings s i)"
    by (simp add: fee_inv_def)
next
  assume a: "createBooking e pid ci co amount uri s0 = Inr (bid, s')"
  from createBooking_result[OF a]
  show "totalAmount (bookings s' bid) = amount" 
    "platformFee (bookings s' bid) = (amount * platformFeePercentage e) div 1000"
    "platformFee (bookings s' bid) + hostAmount (bookings s' bid) = amount"
    by (simp_all add: newBooking_def)
next
  assume a: "createBookingPaid e pid ci co amount pref uri s0 = Inr (bid, s')"
  from createBookingPaid_result[OF a]
  show "totalAmount (bookings s' bid) = amount" 
    "platformFee (bookings s' bid) = (amount * platformFeePercentage e) div 1000"
    "platformFee (bookings s' bid) + hostAmount (bookings s' bid) = amount"
    by (simp_all add: newBooking_def)
qed

theorem fee_conservation_witness:
  "reachable adminResolved \<and> status (bookings adminResolved 1) = Completed \<and>
   platformFee (bookings adminResolved 1) + hostAmount (bookings adminResolved 1)
     = totalAmount (bookings adminResolved 1) \<and>
   (\<exists>bid s'. createBooking (envAt 20 1000) ''P'' 605800 865000 300 [] (deployed 1 2 3) = Inr (bid, s') \<and>
       totalAmount (bookings s' bid) = 300 \<and> platformFee (bookings s' bid) = 9 \<and>
       platformFee (bookings s' bid) + hostAmount (bookings s' bid) = 300) \<and>
   (\<exists>bid s'. createBookingPaid (envAt 20 1000) ''P'' 605800 865000 300 ''ref'' [] (deployed 1 2 3) = Inr (bid, s') \<and>
       totalAmount (bookings s' bid) = 300 \<and> platformFee (bookings s' bid) = 9 \<and>
       platformFee (bookings s' bid) + hostAmount (bookings s' bid) = 300)"
proof -
  have e: "platformFeePercentage (envAt 20 1000) = 30" by (simp add: envAt_def)
  obtain b1 s1 where
    1: "createBooking (envAt 20 1000) ''P'' 605800 865000 300 [] (deployed 1 2 3) = Inr (b1, s1)"
    by (simp add: contract_defs)
  obtain b2 s2 where
    2: "createBookingPaid (envAt 20 1000) ''P'' 605800 865000 300 ''ref'' [] (deployed 1 2 3) = Inr (b2, s2)"
    by (simp add: contract_defs)
  have st: "status (bookings adminResolved 1) = Completed"
    by (simp add: adminResolved_eq)
  note r = reachable_fixtures(4)
  have A: "platformFee (bookings adminResolved 1) + hostAmount (bookings adminResolved 1)
     = totalAmount (bookings adminResolved 1)"
    using r fee_conservation[where s = adminResolved and i = 1] by blast
  have B: "totalAmount (bookings s1 b1) = 300 \<and> platformFee (bookings s1 b1) = 9 \<and>
       platformFee (bookings s1 b1) + hostAmount (bookings s1 b1) = 300"
    using 1 fee_conservation[where e = "envAt 20 1000" and pid = "''P''"
        and ci = 605800 and co = 865000 and amount = 300 and uri = "[]" and ?s0.0 = "deployed 1 2 3"
        and bid = b1 and s' = s1 and s = adminResolved and i = 1 and pref = "[]"]
    by (auto simp: e)
  have C: "totalAmount (bookings s2 b2) = 300 \<and> platformFee (bookings s2 b2) = 9 \<and>
       platformFee (bookings s2 b2) + hostAmount (bookings s2 b2) = 300"
    using 2 fee_conservation[where e = "envAt 20 1000" and pid = "''P''"
        and ci = 605800 and co = 865000 and amount = 300 and uri = "[]" and ?s0.0 = "deployed 1 2 3"
        and bid = b2 and s' = s2 and pref = "''ref''" and s = adminResolved and i = 1]
    by (auto simp: e)
  show ?thesis
    using r st A B C 1 2 by blast
qed

text \<open>
  Claim C9 (escalation). \<open>escalateDispute\<close> succeeds exactly when the booking is Disputed, the
  block time is past \<open>disputeDeadline\<close> and not both parties have resolved; a booking where
  exactly one party resolved can be escalated. Its only effect is the status
  \<open>EscalatedToAdmin\<close>. Otherwise it reverts with ``Not in dispute'', ``Dispute resolution
  window not expired'' or ``Dispute already resolved''. The caller plays no part.
\<close>

theorem escalate_dispute:
  "((\<exists>s'. escalateDispute e bid s = Inr s') \<longleftrightarrow>
      status (bookings s bid) = Disputed \<and> timestamp e > disputeDeadline (bookings s bid) \<and>
      \<not> (isResolvedByHost (bookings s bid) \<and> isResolvedByGuest (bookings s bid)))
   \<and> (escalateDispute e bid s = Inr s' \<longrightarrow>
        s' = s\<lparr>bookings := (bookings s)(bid := (bookings s bid)\<lparr>status := EscalatedToAdmin\<rparr>)\<rparr>)
   \<and> (status (bookings s bid) = Disputed \<and> timestamp e > disputeDeadline (bookings s bid) \<and>
        isResolvedByHost (bookings s bid) \<noteq> isResolvedByGuest (bookings s bid)
        \<longrightarrow> (\<exists>s'. escalateDispute e bid s = Inr s'))
   \<and> (status (bookings s bid) \<noteq> Disputed \<longrightarrow>
        escalateDispute e bid s = Inl (Revert ''Not in dispute''))
   \<and> (status (bookings s bid) = Disputed \<and> timestamp e \<le> disputeDeadline (bookings s bid) \<longrightarrow>
        escalateDispute e bid s = Inl (Revert ''Dispute resolution window not expired''))
   \<and> (status (bookings s bid) = Disputed \<and> timestamp e > disputeDeadline (bookings s bid) \<and>
        isResolvedByHost (bookings s bid) \<and> isResolvedByGuest (bookings s bid) \<longrightarrow>
        escalateDispute e bid s = Inl (Revert ''Dispute already resolved''))
   \<and> escalateDispute (e\<lparr>sender := a\<rparr>) bid s = escalateDispute e bid s"
  by (auto simp: escalateDispute_def Let_def setBooking_def)

lemma exec_flags:
  assumes "exec e c s = Inr s'" "\<not> isCreate c"
  shows "(isResolvedByHost (bookings s i) \<longrightarrow> isResolvedByHost (bookings s' i)) \<and>
         (isResolvedByGuest (bookings s i) \<longrightarrow> isResolvedByGuest (bookings s' i)) \<and>
         (bookings s i = zeroBooking \<and> 0 < i \<longrightarrow> bookings s' i = zeroBooking) \<and>
         ((isResolvedByHost (bookings s i) \<and> isResolvedByGuest (bookings s i)
              \<longrightarrow> status (bookings s i) = Completed) \<longrightarrow>
          (isResolvedByHost (bookings s' i) \<and> isResolvedByGuest (bookings s' i)
              \<longrightarrow> status (bookings s' i) = Completed))"
proof (cases c)
  case (TriggerCheckInWindow bid)
  with assms show ?thesis
    by (auto simp: triggerCheckInWindow_def Let_def setBooking_def zeroBooking_def split: if_splits)
next
  case (CheckIn bid)
  with assms show ?thesis
    by (auto simp: checkIn_def Let_def setBooking_def zeroBooking_def split: if_splits)
next
  case (ProcessMissedCheckIn bid)
  with assms show ?thesis
    by (auto simp: processMissedCheckIn_def Let_def setBooking_def zeroBooking_def split: if_splits)
next
  case (HostResolveDispute bid)
  with assms show ?thesis
    by (auto simp: hostResolveDispute_def Let_def setBooking_def zeroBooking_def split: if_splits
        dest!: completeBooking_bookings)
next
  case (GuestResolveDispute bid)
  with assms show ?thesis
    by (auto simp: guestResolveDispute_def Let_def setBooking_def zeroBooking_def split: if_splits
        dest!: completeBooking_bookings)
next
  case (EscalateDispute bid)
  with assms show ?thesis
    by (auto simp: escalateDispute_def Let_def setBooking_def zeroBooking_def split: if_splits)
next
  case (AdminResolveDispute bid pct)
  with assms show ?thesis
    by (auto simp: adminResolveDispute_def payIfPositive_def Let_def setBooking_def zeroBooking_def
        split: if_splits sum.splits dest!: safeTransfer_frame)
next
  case (CancelBooking bid)
  with assms show ?thesis
    by (auto simp: cancelBooking_def Let_def setBooking_def zeroBooking_def
        split: if_splits sum.splits dest!: safeTransfer_frame)
next
  case (SetTreasury t)
  with assms show ?thesis
    by (auto simp: setTreasury_def split: if_splits)
qed (use assms in \<open>auto simp: isCreate_def\<close>)

lemma flags_exec:
  assumes "ghost_inv s" "exec e c s = Inr s'"
  shows "ghost_inv s' \<and>
         (isResolvedByHost (bookings s i) \<longrightarrow> isResolvedByHost (bookings s' i)) \<and>
         (isResolvedByGuest (bookings s i) \<longrightarrow> isResolvedByGuest (bookings s' i)) \<and>
         (resolved_inv s \<longrightarrow> resolved_inv s')"
proof (cases "isCreate c")
  case True
  from exec_create[OF assms(2) True] obtain pid ci co g h amount fee uri pref off where
    c: "bookingIdCounter s' = Suc (bookingIdCounter s)"
    and b: "bookings s' = (bookings s)
        (Suc (bookingIdCounter s) := newBooking (Suc (bookingIdCounter s)) pid g h ci co amount fee uri pref off)"
    by blast
  have z: "bookings s (Suc (bookingIdCounter s)) = zeroBooking"
    using assms(1) by (simp add: ghost_inv_def)
  have nf: "\<not> isResolvedByHost (newBooking (Suc (bookingIdCounter s)) pid g h ci co amount fee uri pref off)"
    "\<not> isResolvedByGuest (newBooking (Suc (bookingIdCounter s)) pid g h ci co amount fee uri pref off)"
    by (simp_all add: newBooking_def)
  have 1: "ghost_inv s'" using assms(1) by (simp add: ghost_inv_def b c)
  have 2: "isResolvedByHost (bookings s i) \<longrightarrow> isResolvedByHost (bookings s' i)"
    "isResolvedByGuest (bookings s i) \<longrightarrow> isResolvedByGuest (bookings s' i)"
    using z by (auto simp: b zeroBooking_def)
  have 3: "resolved_inv s \<longrightarrow> resolved_inv s'"
    using nf by (auto simp: resolved_inv_def b)
  from 1 2 3 show ?thesis by simp
next
  case False
  note f = exec_flags[OF assms(2) False] exec_frame[OF assms(2) False]
  have 1: "ghost_inv s'"
    unfolding ghost_inv_def
  proof (intro allI impI)
    fix k assume "k > bookingIdCounter s'"
    with f(2) assms(1) have "bookings s k = zeroBooking \<and> 0 < k" by (simp add: ghost_inv_def)
    with f(1)[of k] show "bookings s' k = zeroBooking" by blast
  qed
  have 3: "resolved_inv s \<longrightarrow> resolved_inv s'"
    unfolding resolved_inv_def using f(1) by blast
  from 1 3 f(1)[of i] show ?thesis by blast
qed

lemma flags_evolves:
  "evolves s s' \<Longrightarrow> ghost_inv s \<Longrightarrow>
     ghost_inv s' \<and>
     (isResolvedByHost (bookings s i) \<longrightarrow> isResolvedByHost (bookings s' i)) \<and>
     (isResolvedByGuest (bookings s i) \<longrightarrow> isResolvedByGuest (bookings s' i)) \<and>
     (resolved_inv s \<longrightarrow> resolved_inv s')"
proof (induction rule: evolves.induct)
  case (evolves_refl s)
  then show ?case by simp
next
  case (evolves_call s s1 e c s2)
  then have g: "ghost_inv s1" by simp
  from flags_exec[OF g evolves_call.hyps(2), of i] evolves_call show ?case by blast
qed

lemma flags_deployed: "ghost_inv (deployed d t this) \<and> resolved_inv (deployed d t this)"
  by (simp add: ghost_inv_def resolved_inv_def deployed_def zeroBooking_def)

lemma reachable_flags: "reachable s \<Longrightarrow> ghost_inv s \<and> resolved_inv s"
  using flags_evolves flags_deployed unfolding reachable_def by blast

lemma completeBooking_succeeds:
  "paidOffChain (bookings s bid) \<or>
     (tokenAccepts e (transfers s) (self s, treasury s, platformFee (bookings s bid)) \<and>
      tokenAccepts e (transfers s @ [(self s, treasury s, platformFee (bookings s bid))])
          (self s, host (bookings s bid), hostAmount (bookings s bid)))
   \<Longrightarrow> \<exists>s'. completeBooking e bid s = Inr s'"
  by (auto simp: completeBooking_def Let_def setBooking_def safeTransfer_def)

text \<open>
  Claim C3 (dual consent). \<open>hostResolveDispute\<close> succeeds only for the host and
  \<open>guestResolveDispute\<close> only for the guest, on a Disputed booking, no later than
  \<open>disputeDeadline\<close>; each sets its own flag and leaves the other. After such a call the
  booking is Completed exactly when both flags are set, within that same call, and stays
  Disputed otherwise. When the guards hold the call goes through (for the completing call,
  provided the booking was paid off chain or the token accepts the two payouts). Along every
  execution from a reachable state a flag that is set stays set, and in every reachable state
  a booking with both flags set is Completed.
\<close>

theorem dual_consent:
  "(hostResolveDispute e bid s = Inr s' \<longrightarrow>
      sender e = host (bookings s bid) \<and> status (bookings s bid) = Disputed \<and>
      timestamp e \<le> disputeDeadline (bookings s bid) \<and>
      isResolvedByHost (bookings s' bid) \<and>
      isResolvedByGuest (bookings s' bid) = isResolvedByGuest (bookings s bid) \<and>
      (status (bookings s' bid) = Completed \<longleftrightarrow>
         isResolvedByHost (bookings s' bid) \<and> isResolvedByGuest (bookings s' bid)) \<and>
      (status (bookings s' bid) \<noteq> Completed \<longrightarrow> status (bookings s' bid) = Disputed))
   \<and> (guestResolveDispute e bid s = Inr s' \<longrightarrow>
      sender e = guest (bookings s bid) \<and> status (bookings s bid) = Disputed \<and>
      timestamp e \<le> disputeDeadline (bookings s bid) \<and>
      isResolvedByGuest (bookings s' bid) \<and>
      isResolvedByHost (bookings s' bid) = isResolvedByHost (bookings s bid) \<and>
      (status (bookings s' bid) = Completed \<longleftrightarrow>
         isResolvedByHost (bookings s' bid) \<and> isResolvedByGuest (bookings s' bid)) \<and>
      (status (bookings s' bid) \<noteq> Completed \<longrightarrow> status (bookings s' bid) = Disputed))
   \<and> (status (bookings s bid) = Disputed \<and> timestamp e \<le> disputeDeadline (bookings s bid) \<and>
        (paidOffChain (bookings s bid) \<or>
         (tokenAccepts e (transfers s) (self s, treasury s, platformFee (bookings s bid)) \<and>
          tokenAccepts e (transfers s @ [(self s, treasury s, platformFee (bookings s bid))])
             (self s, host (bookings s bid), hostAmount (bookings s bid))))
        \<longrightarrow> (sender e = host (bookings s bid) \<longrightarrow> (\<exists>s1. hostResolveDispute e bid s = Inr s1)) \<and>
            (sender e = guest (bookings s bid) \<longrightarrow> (\<exists>s1. guestResolveDispute e bid s = Inr s1)))
   \<and> (reachable s0 \<and> evolves s0 s2 \<longrightarrow>
        (isResolvedByHost (bookings s0 i) \<longrightarrow> isResolvedByHost (bookings s2 i)) \<and>
        (isResolvedByGuest (bookings s0 i) \<longrightarrow> isResolvedByGuest (bookings s2 i)))
   \<and> (reachable s0 \<and> isResolvedByHost (bookings s0 i) \<and> isResolvedByGuest (bookings s0 i)
        \<longrightarrow> status (bookings s0 i) = Completed)"
proof (intro conjI)
  show "hostResolveDispute e bid s = Inr s' \<longrightarrow>
      sender e = host (bookings s bid) \<and> status (bookings s bid) = Disputed \<and>
      timestamp e \<le> disputeDeadline (bookings s bid) \<and>
      isResolvedByHost (bookings s' bid) \<and>
      isResolvedByGuest (bookings s' bid) = isResolvedByGuest (bookings s bid) \<and>
      (status (bookings s' bid) = Completed \<longleftrightarrow>
         isResolvedByHost (bookings s' bid) \<and> isResolvedByGuest (bookings s' bid)) \<and>
      (status (bookings s' bid) \<noteq> Completed \<longrightarrow> status (bookings s' bid) = Disputed)"
    by (auto simp: hostResolveDispute_def Let_def setBooking_def split: if_splits
        dest!: completeBooking_bookings)
next
  show "guestResolveDispute e bid s = Inr s' \<longrightarrow>
      sender e = guest (bookings s bid) \<and> status (bookings s bid) = Disputed \<and>
      timestamp e \<le> disputeDeadline (bookings s bid) \<and>
      isResolvedByGuest (bookings s' bid) \<and>
      isResolvedByHost (bookings s' bid) = isResolvedByHost (bookings s bid) \<and>
      (status (bookings s' bid) = Completed \<longleftrightarrow>
         isResolvedByHost (bookings s' bid) \<and> isResolvedByGuest (bookings s' bid)) \<and>
      (status (bookings s' bid) \<noteq> Completed \<longrightarrow> status (bookings s' bid) = Disputed)"
    by (auto simp: guestResolveDispute_def Let_def setBooking_def split: if_splits
        dest!: completeBooking_bookings)
next
  show "status (bookings s bid) = Disputed \<and> timestamp e \<le> disputeDeadline (bookings s bid) \<and>
        (paidOffChain (bookings s bid) \<or>
         (tokenAccepts e (transfers s) (self s, treasury s, platformFee (bookings s bid)) \<and>
          tokenAccepts e (transfers s @ [(self s, treasury s, platformFee (bookings s bid))])
             (self s, host (bookings s bid), hostAmount (bookings s bid))))
        \<longrightarrow> (sender e = host (bookings s bid) \<longrightarrow> (\<exists>s1. hostResolveDispute e bid s = Inr s1)) \<and>
            (sender e = guest (bookings s bid) \<longrightarrow> (\<exists>s1. guestResolveDispute e bid s = Inr s1))"
  proof (intro impI conjI; elim conjE)
    assume a: "status (bookings s bid) = Disputed" "timestamp e \<le> disputeDeadline (bookings s bid)"
      "paidOffChain (bookings s bid) \<or>
         (tokenAccepts e (transfers s) (self s, treasury s, platformFee (bookings s bid)) \<and>
          tokenAccepts e (transfers s @ [(self s, treasury s, platformFee (bookings s bid))])
             (self s, host (bookings s bid), hostAmount (bookings s bid)))"
    { assume h: "sender e = host (bookings s bid)"
      let ?s1 = "setBooking bid ((bookings s bid)\<lparr>isResolvedByHost := True\<rparr>) s"
      from a(3) have "\<exists>s'. completeBooking e bid ?s1 = Inr s'"
        by (intro completeBooking_succeeds) (simp add: setBooking_def)
      with a h show "\<exists>s1. hostResolveDispute e bid s = Inr s1"
        by (auto simp: hostResolveDispute_def Let_def) }
    { assume h: "sender e = guest (bookings s bid)"
      let ?s1 = "setBooking bid ((bookings s bid)\<lparr>isResolvedByGuest := True\<rparr>) s"
      from a(3) have "\<exists>s'. completeBooking e bid ?s1 = Inr s'"
        by (intro completeBooking_succeeds) (simp add: setBooking_def)
      with a h show "\<exists>s1. guestResolveDispute e bid s = Inr s1"
        by (auto simp: guestResolveDispute_def Let_def) }
  qed
next
  show "reachable s0 \<and> evolves s0 s2 \<longrightarrow>
        (isResolvedByHost (bookings s0 i) \<longrightarrow> isResolvedByHost (bookings s2 i)) \<and>
        (isResolvedByGuest (bookings s0 i) \<longrightarrow> isResolvedByGuest (bookings s2 i))"
    using reachable_flags[of s0] flags_evolves[of s0 s2 i] by blast
next
  show "reachable s0 \<and> isResolvedByHost (bookings s0 i) \<and> isResolvedByGuest (bookings s0 i)
        \<longrightarrow> status (bookings s0 i) = Completed"
    using reachable_flags[of s0] by (auto simp: resolved_inv_def)
qed

text \<open>
  Claim C8 (admin resolution). \<open>adminResolveDispute\<close> succeeds only for the owner, on a booking
  that is \<open>EscalatedToAdmin\<close>, with a percentage of at most 100; another caller is refused by
  \<open>onlyOwner\<close>, another status reverts with ``Not escalated to admin'' and a larger percentage
  with ``Invalid percentage''. On success the booking becomes Refunded when the percentage is
  100 and Completed otherwise, and nothing else of it changes. For an escrowed booking the
  contract sends \<open>hostAmount * pct / 100\<close> to the guest and the rest of \<open>hostAmount\<close> to the
  host (each only when positive) and always \<open>platformFee\<close> to the treasury; for a booking paid
  off chain it sends nothing and makes the same status update.
\<close>

theorem admin_resolve:
  "(adminResolveDispute e bid pct s = Inr s' \<longrightarrow>
      sender e = ownerAddr s \<and> status (bookings s bid) = EscalatedToAdmin \<and> pct \<le> 100 \<and>
      bookings s' = (bookings s)
        (bid := (bookings s bid)\<lparr>status := (if pct = 100 then Refunded else Completed)\<rparr>) \<and>
      (status (bookings s' bid) = Refunded \<longleftrightarrow> pct = 100) \<and>
      (status (bookings s' bid) = Completed \<longleftrightarrow> pct \<noteq> 100) \<and>
      hostAmount (bookings s bid) * pct div 100 \<le> hostAmount (bookings s bid) \<and>
      transfers s' = transfers s @
        (if paidOffChain (bookings s bid) then []
         else (if 0 < hostAmount (bookings s bid) * pct div 100
               then [(self s, guest (bookings s bid), hostAmount (bookings s bid) * pct div 100)]
               else []) @
              (if 0 < hostAmount (bookings s bid) - hostAmount (bookings s bid) * pct div 100
               then [(self s, host (bookings s bid),
                      hostAmount (bookings s bid) - hostAmount (bookings s bid) * pct div 100)]
               else []) @
              [(self s, treasury s, platformFee (bookings s bid))]))
   \<and> (sender e \<noteq> ownerAddr s \<longrightarrow>
        adminResolveDispute e bid pct s = Inl (OwnableUnauthorizedAccount (sender e)))
   \<and> (sender e = ownerAddr s \<and> status (bookings s bid) \<noteq> EscalatedToAdmin \<longrightarrow>
        adminResolveDispute e bid pct s = Inl (Revert ''Not escalated to admin''))
   \<and> (sender e = ownerAddr s \<and> status (bookings s bid) = EscalatedToAdmin \<and> 100 < pct \<longrightarrow>
        adminResolveDispute e bid pct s = Inl (Revert ''Invalid percentage''))
   \<and> (sender e = ownerAddr s \<and> status (bookings s bid) = EscalatedToAdmin \<and> pct \<le> 100 \<and>
        paidOffChain (bookings s bid) \<longrightarrow>
        adminResolveDispute e bid pct s =
          Inr (s\<lparr>bookings := (bookings s)
            (bid := (bookings s bid)\<lparr>status := (if pct = 100 then Refunded else Completed)\<rparr>)\<rparr>))"
proof (intro conjI impI)
  assume a: "adminResolveDispute e bid pct s = Inr s'"
  then have g: "sender e = ownerAddr s" "status (bookings s bid) = EscalatedToAdmin" "pct \<le> 100"
    by (auto simp: adminResolveDispute_def Let_def split: if_splits)
  then show "sender e = ownerAddr s" "status (bookings s bid) = EscalatedToAdmin" "pct \<le> 100"
    by simp_all
  show le: "hostAmount (bookings s bid) * pct div 100 \<le> hostAmount (bookings s bid)"
  proof -
    have "hostAmount (bookings s bid) * pct \<le> hostAmount (bookings s bid) * 100"
      using g(3) by simp
    then have "hostAmount (bookings s bid) * pct div 100 \<le> hostAmount (bookings s bid) * 100 div 100"
      by (rule div_le_mono)
    then show ?thesis by simp
  qed
  from a show b: "bookings s' = (bookings s)
        (bid := (bookings s bid)\<lparr>status := (if pct = 100 then Refunded else Completed)\<rparr>)"
    by (auto simp: adminResolveDispute_def payIfPositive_def Let_def setBooking_def resolvedStatus_def
        split: if_splits sum.splits dest!: safeTransfer_frame)
  then show "status (bookings s' bid) = Refunded \<longleftrightarrow> pct = 100"
    "status (bookings s' bid) = Completed \<longleftrightarrow> pct \<noteq> 100"
    by simp_all
  from a show "transfers s' = transfers s @
        (if paidOffChain (bookings s bid) then []
         else (if 0 < hostAmount (bookings s bid) * pct div 100
               then [(self s, guest (bookings s bid), hostAmount (bookings s bid) * pct div 100)]
               else []) @
              (if 0 < hostAmount (bookings s bid) - hostAmount (bookings s bid) * pct div 100
               then [(self s, host (bookings s bid),
                      hostAmount (bookings s bid) - hostAmount (bookings s bid) * pct div 100)]
               else []) @
              [(self s, treasury s, platformFee (bookings s bid))])"
    by (auto simp: adminResolveDispute_def payIfPositive_def Let_def setBooking_def
        split: if_splits sum.splits dest!: safeTransfer_frame)
qed (auto simp: adminResolveDispute_def Let_def setBooking_def resolvedStatus_def)

lemma bothResolved_eq:
  "hostResolveDispute (envAt 10 700001) 1 guestResolved = Inr bothResolved \<and>
   bothResolved = guestResolved\<lparr>bookings := (bookings guestResolved)
      (1 := (bookings guestResolved 1)\<lparr>isResolvedByHost := True, status := Completed\<rparr>),
      transfers := [(20, 3, 300), (3, 2, 9), (3, 10, 291)]\<rparr>"
  by (simp add: bothResolved_def guestResolved_eq disputed_eq contract_defs)

lemma escalatedPaid_eq:
  "escalatedPaid = \<lparr> bookings = (\<lambda>_. zeroBooking)
       (1 := \<lparr> bookingId = 1, propertyId = ''P'', guest = 20, host = 10,
        checkInDate = 605800, checkOutDate = 865000, totalAmount = 300, platformFee = 9,
        hostAmount = 291, status = EscalatedToAdmin, checkInWindowStart = 605800,
        checkInDeadline = 692200, disputeDeadline = 778601,
        isCheckInComplete = False, isResolvedByHost = False, isResolvedByGuest = False,
        disputeReason = ''Missed check-in'', bookingURI = [], paymentReference = ''ref'',
        paidOffChain = True \<rparr>),
      propertyBookings = (\<lambda>_. [])(''P'' := [1]), guestBookings = (\<lambda>_. [])(20 := [1]),
      bookingIdCounter = 1, treasury = 2, ownerAddr = 1, self = 3,
      transfers = [] \<rparr>"
  by (simp add: escalatedPaid_def contract_defs)

theorem escalate_dispute_witness:
  "isResolvedByGuest (bookings guestResolved 1) \<and> \<not> isResolvedByHost (bookings guestResolved 1) \<and>
   escalateDispute (envAt 30 778602) 1 guestResolved = Inr escalated \<and>
   escalateDispute (envAt 30 778601) 1 guestResolved =
     Inl (Revert ''Dispute resolution window not expired'') \<and>
   escalateDispute (envAt 30 778602) 1 escalated = Inl (Revert ''Not in dispute'') \<and>
   escalateDispute (envAt 30 778602) 1 bothFlagsDisputed = Inl (Revert ''Dispute already resolved'')"
proof -
  have f: "isResolvedByGuest (bookings guestResolved 1)" "\<not> isResolvedByHost (bookings guestResolved 1)"
    "status (bookings guestResolved 1) = Disputed" "disputeDeadline (bookings guestResolved 1) = 778601"
    by (simp_all add: guestResolved_eq disputed_eq)
  have t: "timestamp (envAt 30 778602) = 778602" "timestamp (envAt 30 778601) = 778601"
    by (simp_all add: envAt_def)
  note T = escalate_dispute[where e = "envAt 30 778602" and bid = 1 and s = guestResolved and a = 30]
  from T f t obtain s1 where 1: "escalateDispute (envAt 30 778602) 1 guestResolved = Inr s1"
    by auto
  with escalate_dispute[where e = "envAt 30 778602" and bid = 1 and s = guestResolved and s' = s1 and a = 30]
  have "s1 = escalated" by (simp add: escalated_eq)
  with 1 have A: "escalateDispute (envAt 30 778602) 1 guestResolved = Inr escalated" by simp
  have B: "escalateDispute (envAt 30 778601) 1 guestResolved =
     Inl (Revert ''Dispute resolution window not expired'')"
    using escalate_dispute[where e = "envAt 30 778601" and bid = 1 and s = guestResolved and a = 30 and s' = escalated]
      f t by simp
  have C: "escalateDispute (envAt 30 778602) 1 escalated = Inl (Revert ''Not in dispute'')"
    using escalate_dispute[where e = "envAt 30 778602" and bid = 1 and s = escalated and a = 30 and s' = escalated]
    by (simp add: escalated_eq)
  have D: "escalateDispute (envAt 30 778602) 1 bothFlagsDisputed = Inl (Revert ''Dispute already resolved'')"
    using escalate_dispute[where e = "envAt 30 778602" and bid = 1 and s = bothFlagsDisputed and a = 30 and s' = escalated]
      f t by (simp add: bothFlagsDisputed_def setBooking_def)
  from f A B C D show ?thesis by simp
qed

theorem admin_resolve_witness:
  "adminResolveDispute (envAt 1 800000) 1 40 escalated = Inr adminResolved \<and>
   status (bookings adminResolved 1) = Completed \<and>
   transfers adminResolved = transfers escalated @ [(3, 20, 116), (3, 10, 175), (3, 2, 9)] \<and>
   hostAmount (bookings escalated 1) = 291 \<and> platformFee (bookings escalated 1) = 9 \<and>
   adminResolveDispute (envAt 1 800000) 1 100 escalatedPaid =
     Inr (escalatedPaid\<lparr>bookings := (bookings escalatedPaid)
            (1 := (bookings escalatedPaid 1)\<lparr>status := Refunded\<rparr>)\<rparr>) \<and>
   adminResolveDispute (envAt 20 800000) 1 40 escalated = Inl (OwnableUnauthorizedAccount 20) \<and>
   adminResolveDispute (envAt 1 800000) 1 40 guestResolved = Inl (Revert ''Not escalated to admin'') \<and>
   adminResolveDispute (envAt 1 800000) 1 101 escalated = Inl (Revert ''Invalid percentage'')"
proof -
  have e: "sender (envAt 1 800000) = 1" "sender (envAt 20 800000) = 20" by (simp_all add: envAt_def)
  have f: "ownerAddr escalated = 1" "status (bookings escalated 1) = EscalatedToAdmin"
    "hostAmount (bookings escalated 1) = 291" "platformFee (bookings escalated 1) = 9"
    "guest (bookings escalated 1) = 20" "host (bookings escalated 1) = 10"
    "\<not> paidOffChain (bookings escalated 1)" "self escalated = 3" "treasury escalated = 2"
    "ownerAddr guestResolved = 1" "status (bookings guestResolved 1) = Disputed"
    by (simp_all add: escalated_eq guestResolved_eq disputed_eq)
  have p: "ownerAddr escalatedPaid = 1" "status (bookings escalatedPaid 1) = EscalatedToAdmin"
    "paidOffChain (bookings escalatedPaid 1)"
    by (simp_all add: escalatedPaid_eq)
  note ok = adminResolved_eq[THEN conjunct1]
  note f = f f[unfolded One_nat_def]
  note e = e e[unfolded One_nat_def]
  note p = p p[unfolded One_nat_def]
  note A0 = admin_resolve[where e = "envAt 1 800000" and bid = 1 and pct = 40 and s = escalated
        and s' = adminResolved, THEN conjunct1, THEN mp, OF ok]
  have A: "status (bookings adminResolved 1) = Completed \<and>
     transfers adminResolved = transfers escalated @ [(3, 20, 116), (3, 10, 175), (3, 2, 9)]"
    using A0 by (simp add: f)
  have B: "adminResolveDispute (envAt 1 800000) 1 100 escalatedPaid =
     Inr (escalatedPaid\<lparr>bookings := (bookings escalatedPaid)
            (1 := (bookings escalatedPaid 1)\<lparr>status := Refunded\<rparr>)\<rparr>)"
    using admin_resolve[where e = "envAt 1 800000" and bid = 1 and pct = 100 and s = escalatedPaid
        and s' = adminResolved, THEN conjunct2, THEN conjunct2, THEN conjunct2, THEN conjunct2]
    by (simp add: p e)
  have C: "adminResolveDispute (envAt 20 800000) 1 40 escalated = Inl (OwnableUnauthorizedAccount 20)"
    using admin_resolve[where e = "envAt 20 800000" and bid = 1 and pct = 40 and s = escalated
        and s' = adminResolved, THEN conjunct2, THEN conjunct1]
    by (simp add: f e)
  have D: "adminResolveDispute (envAt 1 800000) 1 40 guestResolved = Inl (Revert ''Not escalated to admin'')"
    using admin_resolve[where e = "envAt 1 800000" and bid = 1 and pct = 40 and s = guestResolved
        and s' = adminResolved, THEN conjunct2, THEN conjunct2, THEN conjunct1]
    by (simp add: f e)
  have E: "adminResolveDispute (envAt 1 800000) 1 101 escalated = Inl (Revert ''Invalid percentage'')"
    using admin_resolve[where e = "envAt 1 800000" and bid = 1 and pct = 101 and s = escalated
        and s' = adminResolved, THEN conjunct2, THEN conjunct2, THEN conjunct2, THEN conjunct1]
    by (simp add: f e)
  from ok A B C D E f(3,4) show ?thesis by simp
qed

lemma guestResolved_step:
  "guestResolveDispute (envAt 20 700000) 1 disputed = Inr guestResolved"
  by (simp add: guestResolved_def disputed_eq contract_defs)

lemma evolves_fixtures: "evolves guestResolved adminResolved"
proof -
  have 1: "evolves guestResolved escalated"
    unfolding escalated_def by (rule evolves_run)
  have 2: "evolves escalated adminResolved"
    unfolding adminResolved_def by (rule evolves_run)
  from evolves_trans[OF 2 1] show ?thesis .
qed

lemma reachable_bothResolved: "reachable bothResolved"
proof -
  from reachable_fixtures(2) obtain a b c where 0: "evolves (deployed a b c) guestResolved"
    by (auto simp: reachable_def)
  have "evolves (deployed a b c) bothResolved"
    unfolding bothResolved_def by (rule evolves_trans[OF evolves_run 0])
  then show ?thesis by (auto simp: reachable_def)
qed

theorem dual_consent_witness:
  "guestResolveDispute (envAt 20 700000) 1 disputed = Inr guestResolved \<and>
   status (bookings guestResolved 1) = Disputed \<and>
   isResolvedByGuest (bookings guestResolved 1) \<and> \<not> isResolvedByHost (bookings guestResolved 1) \<and>
   hostResolveDispute (envAt 10 700001) 1 guestResolved = Inr bothResolved \<and>
   status (bookings bothResolved 1) = Completed \<and>
   isResolvedByHost (bookings bothResolved 1) \<and> isResolvedByGuest (bookings bothResolved 1) \<and>
   (\<exists>s1. hostResolveDispute (envAt 10 700000) 1 disputed = Inr s1) \<and>
   (\<exists>s1. guestResolveDispute (envAt 20 700000) 1 disputed = Inr s1) \<and>
   reachable guestResolved \<and> evolves guestResolved adminResolved \<and>
   isResolvedByGuest (bookings adminResolved 1) \<and>
   reachable bothResolved"
proof -
  note g = guestResolved_step
  note h = bothResolved_eq[THEN conjunct1]
  have d: "status (bookings disputed 1) = Disputed" "disputeDeadline (bookings disputed 1) = 778601"
    "host (bookings disputed 1) = 10" "guest (bookings disputed 1) = 20"
    "\<not> isResolvedByHost (bookings disputed 1)" "\<not> isResolvedByGuest (bookings disputed 1)"
    by (simp_all add: disputed_eq)
  have e: "\<And>a t. sender (envAt a t) = a" "\<And>a t. timestamp (envAt a t) = t"
    "\<And>a t x y. tokenAccepts (envAt a t) x y"
    by (simp_all add: envAt_def)
  have G: "status (bookings guestResolved 1) = Disputed \<and>
     isResolvedByGuest (bookings guestResolved 1) \<and> \<not> isResolvedByHost (bookings guestResolved 1)"
    using dual_consent[where e = "envAt 20 700000" and bid = 1 and s = disputed and s' = guestResolved,
        THEN conjunct2, THEN conjunct1, THEN mp, OF g] d
    by simp
  have H: "status (bookings bothResolved 1) = Completed \<and>
     isResolvedByHost (bookings bothResolved 1) \<and> isResolvedByGuest (bookings bothResolved 1)"
    using dual_consent[where e = "envAt 10 700001" and bid = 1 and s = guestResolved and s' = bothResolved,
        THEN conjunct1, THEN mp, OF h] G
    by simp
  have S: "(\<exists>s1. hostResolveDispute (envAt 10 700000) 1 disputed = Inr s1)"
    using dual_consent[where e = "envAt 10 700000" and bid = 1 and s = disputed,
        THEN conjunct2, THEN conjunct2, THEN conjunct1] d e
    by simp
  have S': "(\<exists>s1. guestResolveDispute (envAt 20 700000) 1 disputed = Inr s1)"
    using dual_consent[where e = "envAt 20 700000" and bid = 1 and s = disputed,
        THEN conjunct2, THEN conjunct2, THEN conjunct1] d e
    by simp
  have M: "isResolvedByGuest (bookings adminResolved 1)"
    using dual_consent[where ?s0.0 = guestResolved and ?s2.0 = adminResolved and i = 1,
        THEN conjunct2, THEN conjunct2, THEN conjunct2, THEN conjunct1]
      reachable_fixtures(2) evolves_fixtures G
    by simp
  have R: "status (bookings bothResolved 1) = Completed"
    using dual_consent[where ?s0.0 = bothResolved and i = 1,
        THEN conjunct2, THEN conjunct2, THEN conjunct2, THEN conjunct2]
      reachable_bothResolved H
    by simp
  from g h G H S S' M R reachable_fixtures(2) evolves_fixtures reachable_bothResolved
  show ?thesis by simp
qed

lemma createBooking_dates:
  "createBooking e pid ci co amount uri s = Inr r \<Longrightarrow>
     timestamp e < ci \<and> ci < co \<and> ONE_DAY \<le> co - ci"
  using createBooking_result[of e pid ci co amount uri s "fst r" "snd r"] by simp

lemma createBookingPaid_dates:
  "createBookingPaid e pid ci co amount pref uri s = Inr r \<Longrightarrow>
     timestamp e < ci \<and> ci < co \<and> ONE_DAY \<le> co - ci"
  using createBookingPaid_result[of e pid ci co amount pref uri s "fst r" "snd r"] by simp

lemma short_stay: "co - ci < ONE_DAY \<Longrightarrow> \<not> 0 < (co - ci) div ONE_DAY"
  by (simp add: ONE_DAY_def)

text \<open>
  Against claim C7 as stated: a stay of one day and one second is accepted by both creation
  functions, although it is no whole number of days; and a range of one hour that overlaps
  a live booking is turned away with the conflict message, not with a date-range message.
\<close>

theorem creation_partial_day_counterexample:
  "map_sum id fst (createBooking (envAt 20 1000) ''P'' 605800 692201 300 [] (deployed 1 2 3)) = Inr 1 \<and>
   map_sum id fst (createBookingPaid (envAt 20 1000) ''P'' 605800 692201 300 [] [] (deployed 1 2 3))
     = Inr 1 \<and>
   (692201 - 605800) mod ONE_DAY = (1::nat) \<and>
   createBooking (envAt 20 1000) ''P'' 605800 609400 300 [] twoBookings =
     Inl (Revert ''Booking dates conflict with existing booking'')"
proof -
  have 1: "map_sum id fst (createBooking (envAt 20 1000) ''P'' 605800 692201 300 [] (deployed 1 2 3)) = Inr 1"
    by (simp add: contract_defs)
  have 2: "map_sum id fst (createBookingPaid (envAt 20 1000) ''P'' 605800 692201 300 [] [] (deployed 1 2 3))
     = Inr 1"
    by (simp add: contract_defs)
  have 3: "(692201 - 605800) mod ONE_DAY = (1::nat)" by (simp add: ONE_DAY_def)
  have 4: "createBooking (envAt 20 1000) ''P'' 605800 609400 300 [] twoBookings =
     Inl (Revert ''Booking dates conflict with existing booking'')"
    unfolding createBooking_conflict_iff
    by (simp add: twoBookings_values twoBookings_values[unfolded One_nat_def] envAt_def live_def overlaps_def)
  from 1 2 3 4 show ?thesis by simp
qed

text \<open>
  Claim C7, amended (date rules of creation). Either creation function succeeds only when
  \<open>checkInDate\<close> is strictly after the block time, \<open>checkOutDate > checkInDate\<close> and the stay
  lasts at least one day (\<open>(checkOut - checkIn) / 1 days > 0\<close> with integer division; a
  whole multiple of a day is not required). A request that breaks one of these rules is
  rejected, and a rejected call stores nothing. When the property is active and exists (and,
  for \<open>createBooking\<close>, the caller is not its host) the revert message is the first failing
  check in source order: ``Check-in must be in the future'', ``Check-out must be after
  check-in'', then, for a stay shorter than a day, ``Booking dates conflict with existing
  booking'' if the range overlaps a live booking and ``Booking must be at least 1 night''
  if not.
\<close>

theorem creation_date_rules:
  "(createBooking e pid ci co amount uri s = Inr r \<longrightarrow>
      timestamp e < ci \<and> ci < co \<and> ONE_DAY \<le> co - ci)
   \<and> (createBookingPaid e pid ci co amount pref uri s = Inr r \<longrightarrow>
      timestamp e < ci \<and> ci < co \<and> ONE_DAY \<le> co - ci)
   \<and> (\<not> (timestamp e < ci \<and> ci < co \<and> ONE_DAY \<le> co - ci) \<longrightarrow>
      isl (createBooking e pid ci co amount uri s) \<and>
      isl (createBookingPaid e pid ci co amount pref uri s))
   \<and> (snd (properties e pid) \<and> fst (properties e pid) \<noteq> 0 \<and> \<not> timestamp e < ci \<longrightarrow>
      createBookingPaid e pid ci co amount pref uri s = Inl (Revert ''Check-in must be in the future'') \<and>
      (fst (properties e pid) \<noteq> sender e \<longrightarrow>
       createBooking e pid ci co amount uri s = Inl (Revert ''Check-in must be in the future'')))
   \<and> (snd (properties e pid) \<and> fst (properties e pid) \<noteq> 0 \<and> timestamp e < ci \<and> \<not> ci < co \<longrightarrow>
      createBookingPaid e pid ci co amount pref uri s = Inl (Revert ''Check-out must be after check-in'') \<and>
      (fst (properties e pid) \<noteq> sender e \<longrightarrow>
       createBooking e pid ci co amount uri s = Inl (Revert ''Check-out must be after check-in'')))
   \<and> (snd (properties e pid) \<and> fst (properties e pid) \<noteq> 0 \<and> timestamp e < ci \<and> ci < co \<and>
       co - ci < ONE_DAY \<and> \<not> hasBookingConflict s pid ci co \<longrightarrow>
      createBookingPaid e pid ci co amount pref uri s = Inl (Revert ''Booking must be at least 1 night'') \<and>
      (fst (properties e pid) \<noteq> sender e \<longrightarrow>
       createBooking e pid ci co amount uri s = Inl (Revert ''Booking must be at least 1 night'')))
   \<and> (snd (properties e pid) \<and> fst (properties e pid) \<noteq> 0 \<and> timestamp e < ci \<and> ci < co \<and>
       co - ci < ONE_DAY \<and> hasBookingConflict s pid ci co \<longrightarrow>
      createBookingPaid e pid ci co amount pref uri s =
        Inl (Revert ''Booking dates conflict with existing booking'') \<and>
      (fst (properties e pid) \<noteq> sender e \<longrightarrow>
       createBooking e pid ci co amount uri s =
        Inl (Revert ''Booking dates conflict with existing booking'')))"
proof (intro conjI)
  show "createBooking e pid ci co amount uri s = Inr r \<longrightarrow>
      timestamp e < ci \<and> ci < co \<and> ONE_DAY \<le> co - ci"
    using createBooking_dates by blast
next
  show "createBookingPaid e pid ci co amount pref uri s = Inr r \<longrightarrow>
      timestamp e < ci \<and> ci < co \<and> ONE_DAY \<le> co - ci"
    using createBookingPaid_dates by blast
next
  show "\<not> (timestamp e < ci \<and> ci < co \<and> ONE_DAY \<le> co - ci) \<longrightarrow>
      isl (createBooking e pid ci co amount uri s) \<and>
      isl (createBookingPaid e pid ci co amount pref uri s)"
  proof (intro impI conjI)
    assume a: "\<not> (timestamp e < ci \<and> ci < co \<and> ONE_DAY \<le> co - ci)"
    show "isl (createBooking e pid ci co amount uri s)"
    proof (cases "createBooking e pid ci co amount uri s")
      case (Inr r)
      from createBooking_dates[OF this] a show ?thesis by simp
    qed simp
    show "isl (createBookingPaid e pid ci co amount pref uri s)"
    proof (cases "createBookingPaid e pid ci co amount pref uri s")
      case (Inr r)
      from createBookingPaid_dates[OF this] a show ?thesis by simp
    qed simp
  qed
qed (auto simp: createBooking_def createBookingPaid_def Let_def dest: short_stay)


theorem creation_date_rules_witness:
  "(\<exists>r. createBookingPaid (envAt 20 1000) ''P'' 605800 692201 300 [] [] (deployed 1 2 3) = Inr r) \<and>
   (\<exists>r. createBooking (envAt 20 1000) ''P'' 605800 692201 300 [] (deployed 1 2 3) = Inr r) \<and>
   ONE_DAY \<le> 692201 - 605800 \<and>
   isl (createBooking (envAt 20 1000) ''Q'' 605800 605900 300 [] (deployed 1 2 3)) \<and>
   isl (createBookingPaid (envAt 20 1000) ''Q'' 605800 605900 300 [] [] (deployed 1 2 3)) \<and>
   createBooking (envAt 20 1000) ''P'' 1000 865000 300 [] (deployed 1 2 3) =
     Inl (Revert ''Check-in must be in the future'') \<and>
   createBookingPaid (envAt 20 1000) ''P'' 605800 605800 300 [] [] (deployed 1 2 3) =
     Inl (Revert ''Check-out must be after check-in'') \<and>
   createBooking (envAt 20 1000) ''P'' 605800 692199 300 [] (deployed 1 2 3) =
     Inl (Revert ''Booking must be at least 1 night'') \<and>
   createBookingPaid (envAt 20 1000) ''P'' 605800 609400 300 [] [] twoBookings =
     Inl (Revert ''Booking dates conflict with existing booking'')"
proof -
  have e: "snd (properties (envAt 20 1000) ''P'')" "fst (properties (envAt 20 1000) ''P'') = 10"
    "sender (envAt 20 1000) = 20" "timestamp (envAt 20 1000) = 1000"
    by (simp_all add: envAt_def)
  obtain r1 where 1:
    "createBookingPaid (envAt 20 1000) ''P'' 605800 692201 300 [] [] (deployed 1 2 3) = Inr r1"
    by (simp add: contract_defs)
  obtain r2 where 2:
    "createBooking (envAt 20 1000) ''P'' 605800 692201 300 [] (deployed 1 2 3) = Inr r2"
    by (simp add: contract_defs)
  have A: "ONE_DAY \<le> 692201 - 605800"
    using creation_date_rules[where e = "envAt 20 1000" and pid = "''P''" and ci = 605800
        and co = 692201 and amount = 300 and uri = "[]" and pref = "[]" and s = "deployed 1 2 3"
        and r = r1, THEN conjunct2, THEN conjunct1, THEN mp, OF 1]
    by simp
  have A': "ONE_DAY \<le> 692201 - 605800"
    using creation_date_rules[where e = "envAt 20 1000" and pid = "''P''" and ci = 605800
        and co = 692201 and amount = 300 and uri = "[]" and pref = "[]" and s = "deployed 1 2 3"
        and r = r2, THEN conjunct1, THEN mp, OF 2]
    by simp
  have B: "isl (createBooking (envAt 20 1000) ''Q'' 605800 605900 300 [] (deployed 1 2 3)) \<and>
     isl (createBookingPaid (envAt 20 1000) ''Q'' 605800 605900 300 [] [] (deployed 1 2 3))"
    using creation_date_rules[where e = "envAt 20 1000" and pid = "''Q''" and ci = 605800
        and co = 605900 and amount = 300 and uri = "[]" and pref = "[]" and s = "deployed 1 2 3"
        and r = r1, THEN conjunct2, THEN conjunct2, THEN conjunct1]
    by (simp add: ONE_DAY_def)
  have C: "createBooking (envAt 20 1000) ''P'' 1000 865000 300 [] (deployed 1 2 3) =
     Inl (Revert ''Check-in must be in the future'')"
    using creation_date_rules[where e = "envAt 20 1000" and pid = "''P''" and ci = 1000
        and co = 865000 and amount = 300 and uri = "[]" and pref = "[]" and s = "deployed 1 2 3"
        and r = r1, THEN conjunct2, THEN conjunct2, THEN conjunct2, THEN conjunct1]
    by (simp add: e)
  have D: "createBookingPaid (envAt 20 1000) ''P'' 605800 605800 300 [] [] (deployed 1 2 3) =
     Inl (Revert ''Check-out must be after check-in'')"
    using creation_date_rules[where e = "envAt 20 1000" and pid = "''P''" and ci = 605800
        and co = 605800 and amount = 300 and uri = "[]" and pref = "[]" and s = "deployed 1 2 3"
        and r = r1, THEN conjunct2, THEN conjunct2, THEN conjunct2, THEN conjunct2, THEN conjunct1]
    by (simp add: e)
  have nc: "\<not> hasBookingConflict (deployed 1 2 3) ''P'' 605800 692199"
    by (simp add: hasBookingConflict_def deployed_def)
  have E: "createBooking (envAt 20 1000) ''P'' 605800 692199 300 [] (deployed 1 2 3) =
     Inl (Revert ''Booking must be at least 1 night'')"
    using creation_date_rules[where e = "envAt 20 1000" and pid = "''P''" and ci = 605800
        and co = 692199 and amount = 300 and uri = "[]" and pref = "[]" and s = "deployed 1 2 3"
        and r = r1, THEN conjunct2, THEN conjunct2, THEN conjunct2, THEN conjunct2, THEN conjunct2,
        THEN conjunct1] nc
    by (simp add: e ONE_DAY_def)
  have c: "hasBookingConflict twoBookings ''P'' 605800 609400"
    by (simp add: hasBookingConflict_def twoBookings_values twoBookings_values[unfolded One_nat_def])
  have F: "createBookingPaid (envAt 20 1000) ''P'' 605800 609400 300 [] [] twoBookings =
     Inl (Revert ''Booking dates conflict with existing booking'')"
    using creation_date_rules[where e = "envAt 20 1000" and pid = "''P''" and ci = 605800
        and co = 609400 and amount = 300 and uri = "[]" and pref = "[]" and s = twoBookings
        and r = r1, THEN conjunct2, THEN conjunct2, THEN conjunct2, THEN conjunct2, THEN conjunct2,
        THEN conjunct2] c
    by (simp add: e ONE_DAY_def)
  from 1 2 A B C D E F show ?thesis by blast
qed

section \<open>Properties of the event listener\<close>

lemma setDelete_setAdd: "x \<notin> set xs \<Longrightarrow> setDelete x (setAdd x xs) = xs"
  by (simp add: setDelete_def setAdd_def)

lemma processEvent_unfold:
  "processEvent cfg ev s =
     (if \<not> knownFormat ev then s
      else if eventIdOf cfg ev \<in> set (processingEvents s) \<or>
              eventIdOf cfg ev \<in> set (processedEvents s) then s
      else case runHandler cfg ev (projection s) of
             None \<Rightarrow> s
           | Some (True, p') \<Rightarrow>
               s\<lparr>projection := p', processedEvents := processedEvents s @ [eventIdOf cfg ev]\<rparr>
           | Some (False, p') \<Rightarrow> s\<lparr>projection := p'\<rparr>)"
proof (cases "knownFormat ev")
  case False
  then show ?thesis by (simp add: processEvent_def knownFormat_def)
next
  case True
  let ?n = "nameOf ev"
  let ?t = "if evName ev \<noteq> [] then evTimestamp ev else dateNow cfg"
  have pe: "processEvent cfg ev s =
      processNamed cfg ?n (evArgs ev) ?t (orUnknown (evTransactionHash ev)) s"
    using True by (auto simp: processEvent_def knownFormat_def nameOf_def)
  have id: "makeEventId cfg (orUnknown (evTransactionHash ev)) ?n (evArgs ev) = eventIdOf cfg ev"
    by (simp add: eventIdOf_def nameOf_def)
  show ?thesis
  proof (cases "eventIdOf cfg ev \<in> set (processingEvents s) \<or>
                eventIdOf cfg ev \<in> set (processedEvents s)")
    case skip: True
    then show ?thesis using True
      unfolding pe processNamed_def id Let_def by auto
  next
    case fresh: False
    then have d: "setDelete (eventIdOf cfg ev) (setAdd (eventIdOf cfg ev) (processingEvents s))
        = processingEvents s"
      and a: "setAdd (eventIdOf cfg ev) (processedEvents s) = processedEvents s @ [eventIdOf cfg ev]"
      by (simp_all add: setDelete_def setAdd_def)
    show ?thesis
    proof (cases "getEventHandler cfg ?n")
      case None
      then show ?thesis using True fresh
        unfolding pe processNamed_def id Let_def
        by (simp add: runHandler_def d)
    next
      case (Some h)
      obtain ok p' where r: "h (payloadOf cfg ev) (projection s) = (ok, p')"
        by (cases "h (payloadOf cfg ev) (projection s)")
      then have r': "h \<lparr> plName = ?n, plArgs = evArgs ev, plTimestamp = ?t,
            plTransactionHash = orUnknown (evTransactionHash ev) \<rparr> (projection s) = (ok, p')"
        by (simp add: payloadOf_def)
      show ?thesis using True fresh Some
        unfolding pe processNamed_def id Let_def
        by (cases ok) (simp_all add: runHandler_def r r' d a)
    qed
  qed
qed

lemma processEvent_frame:
  "processingEvents (processEvent cfg ev s) = processingEvents s \<and>
   lastProcessedBlock (processEvent cfg ev s) = lastProcessedBlock s \<and>
   set (processedEvents s) \<subseteq> set (processedEvents (processEvent cfg ev s))"
  unfolding processEvent_unfold
  by (auto split: option.splits prod.splits bool.splits)

lemma processAll_frame:
  "processingEvents (processAll cfg evs s) = processingEvents s \<and>
   lastProcessedBlock (processAll cfg evs s) = lastProcessedBlock s \<and>
   set (processedEvents s) \<subseteq> set (processedEvents (processAll cfg evs s))"
proof (induction evs arbitrary: s)
  case Nil
  show ?case by simp
next
  case (Cons ev evs)
  from Cons[of "processEvent cfg ev s"] processEvent_frame[of cfg ev s]
  show ?case by auto
qed

lemma processEvent_commits:
  assumes "knownFormat ev" "eventIdOf cfg ev \<notin> set (processingEvents s)"
    and "runHandler cfg ev (projection s) = Some (True, p')"
  shows "eventIdOf cfg ev \<in> set (processedEvents (processEvent cfg ev s))"
  using assms unfolding processEvent_unfold by auto

lemma processAll_commits:
  assumes "ev \<in> set evs" "knownFormat ev" "eventIdOf cfg ev \<notin> set (processingEvents s)"
    and ok: "\<forall>p. \<exists>p'. runHandler cfg ev p = Some (True, p')"
  shows "eventIdOf cfg ev \<in> set (processedEvents (processAll cfg evs s))"
  using assms(1,3)
proof (induction evs arbitrary: s)
  case Nil
  then show ?case by simp
next
  case (Cons x evs)
  let ?s1 = "processEvent cfg x s"
  have fr: "processingEvents ?s1 = processingEvents s"
    using processEvent_frame[of cfg x s] by simp
  show ?case
  proof (cases "x = ev")
    case True
    from ok obtain p' where "runHandler cfg ev (projection s) = Some (True, p')" by blast
    from processEvent_commits[OF assms(2) Cons.prems(2) this]
    have "eventIdOf cfg ev \<in> set (processedEvents ?s1)" using True by simp
    then show ?thesis using processAll_frame[of cfg evs ?s1] by auto
  next
    case False
    with Cons.prems have "ev \<in> set evs" by simp
    from Cons.IH[OF this, of ?s1] Cons.prems(2) fr show ?thesis by simp
  qed
qed

lemma processNewBlocks_cursor:
  "getBlockNumber r = Some currentBlock \<Longrightarrow> lastProcessedBlock s < currentBlock \<Longrightarrow>
     processNewBlocks cfg r s =
       (processAll cfg (getAllEvents r (lastProcessedBlock s + 1) currentBlock) s)
         \<lparr>lastProcessedBlock := currentBlock\<rparr>"
  by (simp add: processNewBlocks_def)

lemmas strapi_defs = createBookingInStrapi_def findBookingByBlockchainId_def
  findPropertyByBlockchainId_def findBookingsByPropertyId_def postBooking_def

lemmas handler_fixture_defs = handleBookingCreatedImpl_def createdPayload_def chainOf_def
  strapi_defs okEnv_def cmsP_def cmsApplied_def cmsRelisted_def firstEntry_def Let_def
  getBookingStatusString_def ceilDays_def showInt_def digitChar_def







text \<open>
  Replaying the creation event of a booking that was applied: with every request going
  through and the property entry unchanged, the handler stops at the per-property check and
  changes nothing.
\<close>

lemma replay_with_property_check:
  "handleBookingCreatedImpl okEnv (chainOf twoBookings) (createdPayload 1 ''P'' 605800) cmsApplied =
     (True, cmsApplied)"
  by (simp add: handler_fixture_defs twoBookings_values twoBookings_values[unfolded One_nat_def])

text \<open>
  Claim C6 (replay detected by ledger id), at the inputs where the code departs from it.
  \<open>findBookingByBlockchainId\<close> returns the empty array on a CMS that holds the entry with ledger
  id 1, so the handler never recognises an applied booking by its ledger id. Replaying the
  creation event of ledger booking 1 then creates a second entry with the same ledger id
  whenever the per-property check does not catch it: when the request behind
  \<open>findBookingsByPropertyId\<close> fails, or when the property is by now another CMS entry than the
  one the booking entry is linked to.
\<close>

theorem replay_creates_duplicate:
  "firstEntry \<in> set (sBookings cmsApplied) \<and> sbBlockchainBookingId firstEntry = ''1'' \<and>
   findBookingByBlockchainId okEnv cmsApplied ''1'' = [] \<and>
   map sbBlockchainBookingId
     (sBookings (snd (handleBookingCreatedImpl (okEnv\<lparr>propertyBookingsGetOk := False\<rparr>)
        (chainOf twoBookings) (createdPayload 1 ''P'' 605800) cmsApplied))) = [''1'', ''1''] \<and>
   firstEntry \<in> set (sBookings cmsRelisted) \<and>
   map sbBlockchainBookingId
     (sBookings (snd (handleBookingCreatedImpl okEnv
        (chainOf twoBookings) (createdPayload 1 ''P'' 605800) cmsRelisted))) = [''1'', ''1'']"
proof -
  have 1: "firstEntry \<in> set (sBookings cmsApplied)" "sbBlockchainBookingId firstEntry = ''1''"
    "firstEntry \<in> set (sBookings cmsRelisted)"
    by (simp_all add: cmsApplied_def cmsRelisted_def firstEntry_def)
  have 2: "findBookingByBlockchainId okEnv cmsApplied ''1'' = []"
    by (simp add: findBookingByBlockchainId_def)
  have 3: "map sbBlockchainBookingId
     (sBookings (snd (handleBookingCreatedImpl (okEnv\<lparr>propertyBookingsGetOk := False\<rparr>)
        (chainOf twoBookings) (createdPayload 1 ''P'' 605800) cmsApplied))) = [''1'', ''1'']"
    by (simp add: handler_fixture_defs twoBookings_values twoBookings_values[unfolded One_nat_def])
  have 4: "map sbBlockchainBookingId
     (sBookings (snd (handleBookingCreatedImpl okEnv
        (chainOf twoBookings) (createdPayload 1 ''P'' 605800) cmsRelisted))) = [''1'', ''1'']"
    by (simp add: handler_fixture_defs twoBookings_values twoBookings_values[unfolded One_nat_def])
  from 1 2 3 4 show ?thesis by simp
qed

subsection \<open>The registered handlers\<close>

lemma handleBookingCreatedImpl_returns: "fst (handleBookingCreatedImpl io ch pl st)"
  by (simp add: handleBookingCreatedImpl_def split: list.split jsval.split option.split)

lemma handleBookingCreatedPaidImpl_returns: "fst (handleBookingCreatedPaidImpl io ch pl st)"
  by (simp add: handleBookingCreatedPaidImpl_def split: list.split jsval.split option.split)

lemma handleBookingCompletedImpl_returns: "fst (handleBookingCompletedImpl env pl w)"
  by (simp add: handleBookingCompletedImpl_def split: prod.split sum.split option.split)

lemma onCms_fst: "fst (onCms h pl w) = fst (h pl (cms w))"
  by (simp add: onCms_def split: prod.split)

lemma onCms_snd: "snd (onCms h pl w) = w\<lparr>cms := snd (h pl (cms w))\<rparr>"
  by (simp add: onCms_def split: prod.split)

lemma getEventHandler_real_booking:
  "getEventHandler (realConfig env) ''BookingCreated'' =
     Some (onCms (handleBookingCreatedImpl (heStrapi env) (heChainBookings env)))"
  "getEventHandler (realConfig env) ''BookingCreatedPaid'' =
     Some (onCms (handleBookingCreatedPaidImpl (heStrapi env) (heChainBookings env)))"
  "getEventHandler (realConfig env) ''CheckedIn'' = Some (onCms (handleCheckedInImpl (heStrapi env)))"
  "getEventHandler (realConfig env) ''BookingCompleted'' = Some (handleBookingCompletedImpl env)"
  "getEventHandler (realConfig env) ''BookingCancelled'' =
     Some (onCms (handleBookingCancelledImpl (heStrapi env)))"
  by (simp_all add: getEventHandler_def realConfig_def)

lemma fst_True: "fst x \<Longrightarrow> \<exists>q. x = (True, q)"
  by (cases x) simp

lemma real_booking_handler_returns:
  assumes "nameOf ev \<in> set bookingNames"
  shows "\<exists>q. runHandler (realConfig env) ev p = Some (True, q)"
proof -
  let ?pl = "payloadOf (realConfig env) ev"
  from assms consider "nameOf ev = ''BookingCreated''" | "nameOf ev = ''BookingCreatedPaid''"
    | "nameOf ev = ''CheckedIn''" | "nameOf ev = ''BookingCompleted''"
    | "nameOf ev = ''BookingCancelled''"
    by (auto simp: bookingNames_def)
  then show ?thesis
  proof cases
    case 1
    have "fst (onCms (handleBookingCreatedImpl (heStrapi env) (heChainBookings env)) ?pl p)"
      by (simp add: onCms_fst handleBookingCreatedImpl_returns)
    from fst_True[OF this] 1 show ?thesis
      by (simp add: runHandler_def getEventHandler_real_booking)
  next
    case 2
    have "fst (onCms (handleBookingCreatedPaidImpl (heStrapi env) (heChainBookings env)) ?pl p)"
      by (simp add: onCms_fst handleBookingCreatedPaidImpl_returns)
    from fst_True[OF this] 2 show ?thesis
      by (simp add: runHandler_def getEventHandler_real_booking)
  next
    case 3
    have "fst (onCms (handleCheckedInImpl (heStrapi env)) ?pl p)"
      by (simp add: onCms_fst handleCheckedInImpl_def)
    from fst_True[OF this] 3 show ?thesis
      by (simp add: runHandler_def getEventHandler_real_booking)
  next
    case 4
    have "fst (handleBookingCompletedImpl env ?pl p)"
      by (simp add: handleBookingCompletedImpl_returns)
    from fst_True[OF this] 4 show ?thesis
      by (simp add: runHandler_def getEventHandler_real_booking)
  next
    case 5
    have "fst (onCms (handleBookingCancelledImpl (heStrapi env)) ?pl p)"
      by (simp add: onCms_fst handleBookingCancelledImpl_def)
    from fst_True[OF this] 5 show ?thesis
      by (simp add: runHandler_def getEventHandler_real_booking)
  qed
qed



text \<open>
  Names of \<open>Object.prototype\<close> find a value in the handler table: an event called
  \<open>toString\<close> or \<open>constructor\<close> is handled by a function that returns, one called
  \<open>valueOf\<close> or \<open>__proto__\<close> by a call that throws.
\<close>

lemma getEventHandler_prototype:
  "getEventHandler cfg ''toString'' = Some noop"
  "getEventHandler cfg ''constructor'' = Some noop"
  "getEventHandler cfg ''valueOf'' = Some thrower"
  "getEventHandler cfg ''__proto__'' = Some thrower"
  "getEventHandler cfg ''Paused'' = None"
  by (simp_all add: getEventHandler_def prototypeReturning_def prototypeThrowing_def)

subsection \<open>Event identity and repeated delivery\<close>


lemma eventIdOf_eq:
  "eventIdOf cfg ev =
     orUnknown (evTransactionHash ev) @ ''-'' @ nameOf ev @ ''-'' @ stringify cfg (map toSafe (evArgs ev))"
  by (simp add: eventIdOf_def makeEventId_def nameOf_def)





subsection \<open>The example listener\<close>

lemmas listener_fixture_defs = listenerEnv_def downEnv_def okEnv_def cmsP_def world0_def
  listener0_def evCreated_def evListed_def evUpdatedBad_def evUnhandled_def evNameless_def

lemma fixture_ids:
  "eventIdOf (realConfig (listenerEnv io)) evCreated =
     ''0xcc-BookingCreated-['' @ [CHR 0x22] @ ''1'' @ [CHR 0x22] @ '','' @ [CHR 0x22] @ ''P'' @ [CHR 0x22]
       @ '','' @ [CHR 0x22] @ ''0x14'' @ [CHR 0x22] @ '','' @ [CHR 0x22] @ ''605800'' @ [CHR 0x22]
       @ '','' @ [CHR 0x22] @ ''300'' @ [CHR 0x22] @ '',]''"
  "eventIdOf (realConfig (listenerEnv io)) evListed =
     ''0xbb-PropertyListed-['' @ [CHR 0x22] @ ''Q'' @ [CHR 0x22] @ '','' @ [CHR 0x22] @ ''0x77'' @ [CHR 0x22]
       @ '','' @ [CHR 0x22] @ ''0x0a'' @ [CHR 0x22] @ '',]''"
  "eventIdOf (realConfig (listenerEnv io)) evUpdatedBad =
     ''0xaa-PropertyUpdated-['' @ [CHR 0x22] @ ''P'' @ [CHR 0x22] @ '',]''"
  by (simp_all add: eventIdOf_eq orUnknown_def nameOf_def realConfig_def listener_fixture_defs
      plainStringify_def showInt_def digitChar_def)

lemma fixture_known: "knownFormat evCreated" "knownFormat evListed" "knownFormat evUpdatedBad"
  "knownFormat evUnhandled" "\<not> knownFormat evNameless"
  by (simp_all add: knownFormat_def listener_fixture_defs)

lemma sorted_batch: "getAllEvents (rpcAt 5) 5 5 = [evCreated, evListed]"
  by (simp add: getAllEvents_def rpcAt_def evCreated_def evListed_def less_eq_prod_def less_prod_def)

lemma created_write_fails:
  "createBookingInStrapi downEnv
     \<lparr> bdBookingId = ''1'', bdPropertyId = ''P'', bdGuest = ''0x14'', bdCheckInDate = 605800,
       bdCheckOutDate = 865000, bdStatus = ''Upcoming'', bdNumberOfNights = 3,
       bdPaymentReference = [] \<rparr> cmsP = (Inl (), cmsP)"
  by (simp add: strapi_defs downEnv_def okEnv_def cmsP_def Let_def)

lemma fixture_runs:
  "runHandler (realConfig (listenerEnv downEnv)) evCreated world0 = Some (True, world0)"
  "runHandler (realConfig (listenerEnv io)) evListed w =
     Some (True, w\<lparr>originalOwners :=
        (originalOwners w)(Some (JStr ''Q'') := Some (Some (JStr ''0x0a'')))\<rparr>)"
  "runHandler (realConfig (listenerEnv io)) evUpdatedBad w = Some (False, w)"
  "runHandler (realConfig (listenerEnv io)) evUnhandled w = None"
proof -
  show "runHandler (realConfig (listenerEnv downEnv)) evCreated world0 = Some (True, world0)"
    by (simp add: runHandler_def getEventHandler_real_booking nameOf_def payloadOf_def onCms_def
        handleBookingCreatedImpl_def listener_fixture_defs chainOf_def strapi_defs Let_def
        twoBookings_values twoBookings_values[unfolded One_nat_def]
        getBookingStatusString_def ceilDays_def showInt_def digitChar_def)
  show "runHandler (realConfig (listenerEnv io)) evListed w =
     Some (True, w\<lparr>originalOwners :=
        (originalOwners w)(Some (JStr ''Q'') := Some (Some (JStr ''0x0a'')))\<rparr>)"
    by (simp add: runHandler_def getEventHandler_def realConfig_def nameOf_def payloadOf_def
        handlePropertyListedImpl_def Let_def argAt_def orUnknown_def listenerEnv_def evListed_def)
  show "runHandler (realConfig (listenerEnv io)) evUpdatedBad w = Some (False, w)"
    by (simp add: runHandler_def getEventHandler_def realConfig_def nameOf_def payloadOf_def
        handlePropertyUpdatedImpl_def argAt_def listenerEnv_def evUpdatedBad_def)
  show "runHandler (realConfig (listenerEnv io)) evUnhandled w = None"
    by (simp add: runHandler_def getEventHandler_def nameOf_def evUnhandled_def
        prototypeReturning_def prototypeThrowing_def)
qed

lemma afterFailedPoll_eq:
  "afterFailedPoll = \<lparr> lastProcessedBlock = 5,
      processedEvents = [eventIdOf (realConfig (listenerEnv downEnv)) evCreated,
                         eventIdOf (realConfig (listenerEnv downEnv)) evListed],
      processingEvents = [],
      projection = world0\<lparr>originalOwners :=
        (originalOwners world0)(Some (JStr ''Q'') := Some (Some (JStr ''0x0a'')))\<rparr> \<rparr>"
proof -
  have b: "getBlockNumber (rpcAt 5) = Some 5" by (simp add: rpcAt_def)
  have ne: "eventIdOf (realConfig (listenerEnv downEnv)) evListed
      \<noteq> eventIdOf (realConfig (listenerEnv downEnv)) evCreated"
    by (simp add: fixture_ids)
  show ?thesis
    unfolding afterFailedPoll_def
    by (simp add: processNewBlocks_cursor[OF b] listener0_def sorted_batch processEvent_unfold
        fixture_known fixture_runs ne)
qed

subsection \<open>Handler failures and the block cursor\<close>

text \<open>
  Against claim C4 as stated: the poll at head 5 delivers the creation event of booking 1
  while the CMS refuses the POST. \<open>createBookingInStrapi\<close> fails and the CMS gets no booking
  entry, but \<open>handleBookingCreated\<close> catches the error and returns, so the event is marked
  processed all the same, and the cursor is set to 5, the block of the event. The poll at
  head 6 fetches blocks 6 to 6, where the event is not, and only moves the cursor; and were
  the event delivered again with the CMS back, it would be skipped as already processed.
\<close>

theorem poll_cursor_counterexample:
  "evBlockNumber evCreated = 5 \<and>
   createBookingInStrapi downEnv
     \<lparr> bdBookingId = ''1'', bdPropertyId = ''P'', bdGuest = ''0x14'', bdCheckInDate = 605800,
       bdCheckOutDate = 865000, bdStatus = ''Upcoming'', bdNumberOfNights = 3,
       bdPaymentReference = [] \<rparr> cmsP = (Inl (), cmsP) \<and>
   runHandler (realConfig (listenerEnv downEnv)) evCreated world0 = Some (True, world0) \<and>
   sBookings (cms (projection afterFailedPoll)) = [] \<and>
   eventIdOf (realConfig (listenerEnv downEnv)) evCreated \<in> set (processedEvents afterFailedPoll) \<and>
   lastProcessedBlock afterFailedPoll = 5 \<and>
   getAllEvents (rpcAt 6) (lastProcessedBlock afterFailedPoll + 1) 6 = [] \<and>
   processNewBlocks (realConfig (listenerEnv okEnv)) (rpcAt 6) afterFailedPoll
     = afterFailedPoll\<lparr>lastProcessedBlock := 6\<rparr> \<and>
   processEvent (realConfig (listenerEnv okEnv)) evCreated afterFailedPoll = afterFailedPoll"
proof -
  have 1: "evBlockNumber evCreated = 5" "evBlockNumber evListed = 5"
    by (simp_all add: evCreated_def evListed_def)
  note 2 = created_write_fails
  note 3 = fixture_runs(1)
  have 4: "sBookings (cms (projection afterFailedPoll)) = []"
    by (simp add: afterFailedPoll_eq world0_def cmsP_def)
  have 5: "eventIdOf (realConfig (listenerEnv downEnv)) evCreated \<in> set (processedEvents afterFailedPoll)"
    by (simp add: afterFailedPoll_eq)
  have 6: "lastProcessedBlock afterFailedPoll = 5" by (simp add: afterFailedPoll_eq)
  have 7: "getAllEvents (rpcAt 6) (lastProcessedBlock afterFailedPoll + 1) 6 = []"
    by (simp add: 6 getAllEvents_def rpcAt_def 1)
  have b: "getBlockNumber (rpcAt 6) = Some 6" by (simp add: rpcAt_def)
  have 8: "processNewBlocks (realConfig (listenerEnv okEnv)) (rpcAt 6) afterFailedPoll
     = afterFailedPoll\<lparr>lastProcessedBlock := 6\<rparr>"
    using 7 by (simp add: processNewBlocks_cursor[OF b] 6)
  have id: "eventIdOf (realConfig (listenerEnv okEnv)) evCreated
      = eventIdOf (realConfig (listenerEnv downEnv)) evCreated"
    by (simp add: fixture_ids)
  have 9: "processEvent (realConfig (listenerEnv okEnv)) evCreated afterFailedPoll = afterFailedPoll"
    unfolding processEvent_unfold id using 5 by simp
  from 1 2 3 4 5 6 7 8 9 show ?thesis by blast
qed

text \<open>
  Claim C4, amended (handler failures during a poll). The handlers registered for the
  booking events catch their own errors and always return, so such an event is marked
  processed whether its write to the CMS went through or not, and it is not handled again.
  Only an error that escapes a handler leaves the event unmarked: the listener is then as
  before the delivery, apart from what the handler did to the projection before it threw.
  An event of the batch whose handler returns is marked processed whatever happened to the
  other events of the batch. A poll that sees a new head block sets \<open>lastProcessedBlock\<close> to
  that head after the batch, whatever the handlers did, also past an event whose handler
  failed; so the next poll starts after it. A poll whose block-number read fails, or that
  sees no new block, changes nothing.
\<close>

theorem poll_failure_semantics:
  "(nameOf ev \<in> set bookingNames \<longrightarrow>
      (\<exists>q. runHandler (realConfig env) ev p = Some (True, q)))
   \<and> (nameOf ev \<in> set bookingNames \<and> knownFormat ev \<and>
        eventIdOf (realConfig env) ev \<notin> set (processingEvents w) \<longrightarrow>
        eventIdOf (realConfig env) ev \<in> set (processedEvents (processEvent (realConfig env) ev w)))
   \<and> (knownFormat ev \<and> eventIdOf cfg ev \<notin> set (processingEvents s) \<and>
        eventIdOf cfg ev \<notin> set (processedEvents s) \<and>
        runHandler cfg ev (projection s) = Some (False, p') \<longrightarrow>
        processEvent cfg ev s = s\<lparr>projection := p'\<rparr>)
   \<and> (ev \<in> set evs \<and> knownFormat ev \<and> eventIdOf cfg ev \<notin> set (processingEvents s) \<and>
        (\<forall>x. \<exists>q. runHandler cfg ev x = Some (True, q)) \<longrightarrow>
        eventIdOf cfg ev \<in> set (processedEvents (processAll cfg evs s)))
   \<and> (getBlockNumber r = Some currentBlock \<and> lastProcessedBlock s < currentBlock \<longrightarrow>
        processNewBlocks cfg r s =
          (processAll cfg (getAllEvents r (lastProcessedBlock s + 1) currentBlock) s)
            \<lparr>lastProcessedBlock := currentBlock\<rparr> \<and>
        lastProcessedBlock (processNewBlocks cfg r s) = currentBlock)
   \<and> (getBlockNumber r = None \<longrightarrow> processNewBlocks cfg r s = s)
   \<and> (getBlockNumber r = Some currentBlock \<and> currentBlock \<le> lastProcessedBlock s \<longrightarrow>
        processNewBlocks cfg r s = s)"
proof (intro conjI impI)
  assume "nameOf ev \<in> set bookingNames"
  then show "\<exists>q. runHandler (realConfig env) ev p = Some (True, q)"
    by (rule real_booking_handler_returns)
next
  assume a: "nameOf ev \<in> set bookingNames \<and> knownFormat ev \<and>
        eventIdOf (realConfig env) ev \<notin> set (processingEvents w)"
  then obtain q where "runHandler (realConfig env) ev (projection w) = Some (True, q)"
    using real_booking_handler_returns by blast
  with a show "eventIdOf (realConfig env) ev \<in> set (processedEvents (processEvent (realConfig env) ev w))"
    by (intro processEvent_commits[where p' = q]) simp_all
next
  assume "knownFormat ev \<and> eventIdOf cfg ev \<notin> set (processingEvents s) \<and>
      eventIdOf cfg ev \<notin> set (processedEvents s) \<and>
      runHandler cfg ev (projection s) = Some (False, p')"
  then show "processEvent cfg ev s = s\<lparr>projection := p'\<rparr>"
    unfolding processEvent_unfold by simp
next
  assume "ev \<in> set evs \<and> knownFormat ev \<and> eventIdOf cfg ev \<notin> set (processingEvents s) \<and>
        (\<forall>x. \<exists>q. runHandler cfg ev x = Some (True, q))"
  then show "eventIdOf cfg ev \<in> set (processedEvents (processAll cfg evs s))"
    by (intro processAll_commits) simp_all
next
  assume a: "getBlockNumber r = Some currentBlock \<and> lastProcessedBlock s < currentBlock"
  then show "processNewBlocks cfg r s =
          (processAll cfg (getAllEvents r (lastProcessedBlock s + 1) currentBlock) s)
            \<lparr>lastProcessedBlock := currentBlock\<rparr>"
    by (simp add: processNewBlocks_cursor)
  then show "lastProcessedBlock (processNewBlocks cfg r s) = currentBlock" by simp
next
  assume "getBlockNumber r = None"
  then show "processNewBlocks cfg r s = s" by (simp add: processNewBlocks_def)
next
  assume "getBlockNumber r = Some currentBlock \<and> currentBlock \<le> lastProcessedBlock s"
  then show "processNewBlocks cfg r s = s" by (simp add: processNewBlocks_def)
qed

theorem poll_failure_semantics_witness:
  "nameOf evCreated \<in> set bookingNames \<and>
   (\<exists>q. runHandler (realConfig (listenerEnv downEnv)) evCreated world0 = Some (True, q)) \<and>
   eventIdOf (realConfig (listenerEnv downEnv)) evCreated
     \<in> set (processedEvents (processEvent (realConfig (listenerEnv downEnv)) evCreated listener0)) \<and>
   runHandler (realConfig (listenerEnv okEnv)) evUpdatedBad world0 = Some (False, world0) \<and>
   processEvent (realConfig (listenerEnv okEnv)) evUpdatedBad listener0 = listener0 \<and>
   eventIdOf (realConfig (listenerEnv okEnv)) evListed
     \<in> set (processedEvents (processAll (realConfig (listenerEnv okEnv)) [evUpdatedBad, evListed] listener0)) \<and>
   lastProcessedBlock (processNewBlocks (realConfig (listenerEnv downEnv)) (rpcAt 5) listener0) = 5 \<and>
   processNewBlocks (realConfig (listenerEnv okEnv)) (rpcAt 4) listener0 = listener0 \<and>
   processNewBlocks (realConfig (listenerEnv okEnv)) ((rpcAt 4)\<lparr>getBlockNumber := None\<rparr>) listener0
     = listener0"
proof -
  let ?d = "realConfig (listenerEnv downEnv)" and ?o = "realConfig (listenerEnv okEnv)"
  have n: "nameOf evCreated \<in> set bookingNames"
    by (simp add: nameOf_def evCreated_def bookingNames_def)
  have l: "processingEvents listener0 = []" "processedEvents listener0 = []"
    "projection listener0 = world0" "lastProcessedBlock listener0 = 4"
    by (simp_all add: listener0_def)
  have A: "\<exists>q. runHandler ?d evCreated world0 = Some (True, q)"
    using poll_failure_semantics[where ev = evCreated and env = "listenerEnv downEnv" and p = world0,
        THEN conjunct1] n
    by simp
  have B: "eventIdOf ?d evCreated \<in> set (processedEvents (processEvent ?d evCreated listener0))"
    using poll_failure_semantics[where ev = evCreated and env = "listenerEnv downEnv"
        and w = listener0, THEN conjunct2, THEN conjunct1] n fixture_known l
    by simp
  note t = fixture_runs(3)[of okEnv world0]
  have pre: "knownFormat evUpdatedBad \<and> eventIdOf ?o evUpdatedBad \<notin> set (processingEvents listener0) \<and>
        eventIdOf ?o evUpdatedBad \<notin> set (processedEvents listener0) \<and>
        runHandler ?o evUpdatedBad (projection listener0) = Some (False, world0)"
    using fixture_known l t by simp
  have C: "processEvent ?o evUpdatedBad listener0 = listener0"
    using poll_failure_semantics[where ev = evUpdatedBad and cfg = ?o and s = listener0
        and p' = world0, THEN conjunct2, THEN conjunct2, THEN conjunct1, THEN mp, OF pre]
    by (simp add: listener0_def)
  have D: "eventIdOf ?o evListed
     \<in> set (processedEvents (processAll ?o [evUpdatedBad, evListed] listener0))"
    using poll_failure_semantics[where ev = evListed and cfg = ?o and s = listener0
        and evs = "[evUpdatedBad, evListed]",
        THEN conjunct2, THEN conjunct2, THEN conjunct2, THEN conjunct1]
      fixture_known l fixture_runs(2)[of okEnv]
    by simp
  have E: "lastProcessedBlock (processNewBlocks ?d (rpcAt 5) listener0) = 5"
    using poll_failure_semantics[where cfg = ?d and s = listener0 and r = "rpcAt 5"
        and currentBlock = 5,
        THEN conjunct2, THEN conjunct2, THEN conjunct2, THEN conjunct2, THEN conjunct1] l
    by (simp add: rpcAt_def)
  have F: "processNewBlocks ?o ((rpcAt 4)\<lparr>getBlockNumber := None\<rparr>) listener0 = listener0"
    using poll_failure_semantics[where cfg = ?o and s = listener0
        and r = "(rpcAt 4)\<lparr>getBlockNumber := None\<rparr>",
        THEN conjunct2, THEN conjunct2, THEN conjunct2, THEN conjunct2, THEN conjunct2,
        THEN conjunct1]
    by simp
  have G: "processNewBlocks ?o (rpcAt 4) listener0 = listener0"
    using poll_failure_semantics[where cfg = ?o and s = listener0 and r = "rpcAt 4"
        and currentBlock = 4,
        THEN conjunct2, THEN conjunct2, THEN conjunct2, THEN conjunct2, THEN conjunct2,
        THEN conjunct2] l
    by (simp add: rpcAt_def)
  from n A B t C D E F G show ?thesis by blast
qed

subsection \<open>Repeated delivery\<close>



end
